theory Spec2Isabelle
  imports Main "HOL-Library.Sublist"
begin

section \<open>Values, exceptions and the outside world\<close>

text \<open>
  The program is a Flask application (\<^verbatim>\<open>app.py\<close>) whose handlers are straight-line
  sequences of calls to three collaborators: a WebHDFS client, a PostgreSQL connection
  and pandas. None of them is part of the program, so their behaviour is a parameter
  (\<open>world\<close>): every call either returns a value or raises. A handler is a function
  from the world and the request to the list of observable events it produces, in order,
  and to its own outcome: the response it returns, or the exception that leaves it.
\<close>

datatype exn =
    LibError string  \<comment> \<open>an exception raised inside a library call; the text is \<^verbatim>\<open>str(e)\<close>\<close>
  | NoHdfsEndpoint   \<comment> \<open>the \<^verbatim>\<open>Exception\<close> raised at module level, line 69\<close>

datatype 'a outcome = Returned 'a | Raised exn

text \<open>A text file is the list of its lines.\<close>

type_synonym content = "string list"

record client =
  base_url :: string
  username :: string

record db_params =
  dbname :: string
  db_user :: string
  db_password :: string
  db_host :: string
  db_port :: string

record config =
  primary_url :: string
  standby_url :: string
  hdfs_username :: string
  DB_PARAMS :: db_params
  SCHEMA_EXTERNAL :: string
  SCHEMA_INTERNAL :: string

text \<open>
  Python values that are \<^verbatim>\<open>None\<close> or a \<^verbatim>\<open>str\<close> are \<open>string option\<close>. The
  calls the program makes on its collaborators, with their arguments:
\<close>

datatype call =
    HdfsNew string string
      \<comment> \<open>\<^verbatim>\<open>WebHDFSClient(base_url=..., username=...)\<close>\<close>
  | HdfsListStatus client string
  | HdfsMkdirs client string
  | HdfsUploadFile client string string
      \<comment> \<open>\<^verbatim>\<open>upload_file(local_path, hdfs_path)\<close>: negotiates the write target\<close>
  | HdfsWriteFile client "string option" string "content option"
      \<comment> \<open>\<^verbatim>\<open>write_file(url, local_path)\<close>, with what the local path holds at that moment\<close>
  | HdfsDeleteFile client "string option" bool
      \<comment> \<open>\<^verbatim>\<open>delete_file(path, recursive=...)\<close>\<close>
  | PgConnect db_params
  | PgExecute string
  | PgCommit

datatype level = Info | Warning | Error | Critical

text \<open>
  The texts of the log and flash messages are not ASCII; a message is identified by the
  line of \<^verbatim>\<open>app.py\<close> that holds its literal, with the values interpolated into it.
\<close>

datatype piece = Str "string option" | Strs "string list" | Exn exn

datatype msg = Msg nat "piece list"

datatype event =
    Called call "string option outcome"   \<comment> \<open>a call and what came back\<close>
  | Log level msg
  | Flash msg string                      \<comment> \<open>message and category\<close>
  | Print string

text \<open>A data frame: the column names and the rows, each row the fields as read.\<close>

record dataframe =
  columns :: "string list"
  data_rows :: "string list list"

text \<open>The local file system: the directories and the files that exist.\<close>

record local_fs =
  dirs :: "string set"
  files :: "string \<rightharpoonup> content"

text \<open>
  The world answers a call given everything that happened before it. Its other fields:
  \<^item> \<open>pd_read_csv\<close> is \<^verbatim>\<open>pd.read_csv\<close> on what a path holds (\<open>None\<close>: no such file), for
    the files on which the model below does not fix what pandas does;
  \<^item> \<open>pd_to_csv\<close> is the line \<^verbatim>\<open>to_csv\<close> writes for one row of a frame, without its
    terminator: pandas renders the values again, according to the type it inferred for
    each column, and which text that gives is left open;
  \<^item> \<open>fs_save_error\<close> says whether \<^verbatim>\<open>FileStorage.save\<close> raises on a path, given the local
    file system (the path comes from the request: its directory may not exist);
  \<^item> \<open>uuid4\<close> is \<^verbatim>\<open>str(uuid.uuid4())\<close>.
\<close>

record world =
  reply :: "event list \<Rightarrow> call \<Rightarrow> string option outcome"
  pd_read_csv :: "content option \<Rightarrow> dataframe outcome"
  pd_to_csv :: "dataframe \<Rightarrow> string list \<Rightarrow> string"
  fs_save_error :: "local_fs \<Rightarrow> string \<Rightarrow> exn option"
  uuid4 :: string

definition call :: "world \<Rightarrow> event list \<Rightarrow> call \<Rightarrow> event list \<times> string option outcome" where
  "call w t c = (t @ [Called c (reply w t c)], reply w t c)"

section \<open>Python helpers\<close>

text \<open>Truthiness of a value that is \<^verbatim>\<open>None\<close> or a \<^verbatim>\<open>str\<close>.\<close>

fun truthy :: "string option \<Rightarrow> bool" where
  "truthy None = False"
| "truthy (Some s) = (s \<noteq> [])"

text \<open>How an f-string renders such a value.\<close>

fun fmt :: "string option \<Rightarrow> string" where
  "fmt None = ''None''"
| "fmt (Some s) = s"

text \<open>\<^verbatim>\<open>sep.join(xs)\<close>.\<close>

fun join :: "string \<Rightarrow> string list \<Rightarrow> string" where
  "join sep [] = []"
| "join sep [x] = x"
| "join sep (x # y # ys) = x @ sep @ join sep (y # ys)"

text \<open>\<^verbatim>\<open>s.split(c)\<close> for a one-character separator.\<close>

fun split_on :: "char \<Rightarrow> string \<Rightarrow> string list" where
  "split_on c [] = [[]]"
| "split_on c (x # xs) =
     (if x = c then [] # split_on c xs
      else (case split_on c xs of [] \<Rightarrow> [[x]] | y # ys \<Rightarrow> (x # y) # ys))"

text \<open>\<^verbatim>\<open>os.path.join(a, b)\<close> on POSIX.\<close>

definition os_path_join :: "string \<Rightarrow> string \<Rightarrow> string" where
  "os_path_join a b =
     (if b \<noteq> [] \<and> hd b = CHR ''/'' then b
      else if a = [] \<or> last a = CHR ''/'' then a @ b
      else a @ ''/'' @ b)"

text \<open>
  \<^verbatim>\<open>request.form\<close> and \<^verbatim>\<open>request.files\<close> are multi-dictionaries: \<^verbatim>\<open>get\<close> and
  \<^verbatim>\<open>[]\<close> give the first value of a key, \<^verbatim>\<open>getlist\<close> all of them in order.
\<close>

definition form_get :: "(string \<times> 'a) list \<Rightarrow> string \<Rightarrow> 'a option" where
  "form_get f k = map_of f k"

definition form_getlist :: "(string \<times> 'a) list \<Rightarrow> string \<Rightarrow> 'a list" where
  "form_getlist f k = map snd (filter (\<lambda>kv. fst kv = k) f)"

section \<open>Requests and responses\<close>

datatype http_method = GET | POST

record file_storage =
  filename :: string
  stream :: content

record request =
  req_method :: http_method
  req_form :: "(string \<times> string) list"
  req_files :: "(string \<times> file_storage) list"

datatype response =
    Redirect_index
  | Redirect_success "string option" "string option"
      \<comment> \<open>\<^verbatim>\<open>external_table_name\<close>, \<^verbatim>\<open>internal_table_name\<close>\<close>
  | Render_index
  | Render_columns_input "string list" string string
      \<comment> \<open>\<^verbatim>\<open>headers\<close>, \<^verbatim>\<open>hdfs_directory\<close>, \<^verbatim>\<open>hdfs_file_path\<close>\<close>

section \<open>The database sub-steps\<close>

definition nl :: string where
  "nl = [CHR 0x0A]"

definition sp :: "nat \<Rightarrow> string" where
  "sp n = replicate n CHR '' ''"

definition q :: string where
  "q = [CHR 0x27]"

definition create_external_query :: "string \<Rightarrow> string \<Rightarrow> string \<Rightarrow> string \<Rightarrow> string \<Rightarrow> string" where
  "create_external_query schema_name table_name hdfs_path columns_definition delimiter =
     nl @ sp 16 @ ''CREATE EXTERNAL TABLE '' @ schema_name @ ''.'' @ table_name @ '' ('' @
     nl @ sp 20 @ columns_definition @
     nl @ sp 16 @ '')'' @
     nl @ sp 16 @ ''LOCATION ('' @ q @ ''pxf://'' @ hdfs_path @ ''?PROFILE=hdfs:csv&SERVER=adh'' @ q @ '')'' @
     nl @ sp 16 @ ''FORMAT '' @ q @ ''CSV'' @ q @ '' (delimiter=E'' @ q @ delimiter @ q @ '');'' @
     nl @ sp 12"

definition create_external_table ::
  "world \<Rightarrow> event list \<Rightarrow> string \<Rightarrow> string \<Rightarrow> string \<Rightarrow> string \<Rightarrow> string \<Rightarrow> event list \<times> unit outcome" where
  "create_external_table w t schema_name table_name hdfs_path columns_definition delimiter =
     (let query = create_external_query schema_name table_name hdfs_path columns_definition delimiter;
          t1 = t @ [Log Info (Msg 244 [Str (Some query)]), Print query]
      in case call w t1 (PgExecute query) of
           (t2, Raised e) \<Rightarrow>
             (t2 @ [Log Error (Msg 250 [Str (Some schema_name), Str (Some table_name), Exn e])], Raised e)
         | (t2, Returned _) \<Rightarrow>
             (case call w t2 PgCommit of
                (t3, Raised e) \<Rightarrow>
                  (t3 @ [Log Error (Msg 250 [Str (Some schema_name), Str (Some table_name), Exn e])], Raised e)
              | (t3, Returned _) \<Rightarrow>
                  (t3 @ [Log Info (Msg 248 [Str (Some schema_name), Str (Some table_name)])], Returned ())))"

definition create_table_query :: "string \<Rightarrow> string \<Rightarrow> string \<Rightarrow> string" where
  "create_table_query schema_name external_table_name new_table_name =
     nl @ sp 12 @ ''CREATE TABLE '' @ schema_name @ ''.'' @ new_table_name @ '' AS'' @
     nl @ sp 12 @ ''SELECT * FROM '' @ external_table_name @ '';'' @
     nl @ sp 8"

definition create_table_from_external ::
  "world \<Rightarrow> event list \<Rightarrow> string \<Rightarrow> string \<Rightarrow> string \<Rightarrow> event list \<times> unit outcome" where
  "create_table_from_external w t schema_name external_table_name new_table_name =
     (let query = create_table_query schema_name external_table_name new_table_name;
          t1 = t @ [Log Info (Msg 260 [Str (Some query)])]
      in case call w t1 (PgExecute query) of
           (t2, Raised e) \<Rightarrow> (t2, Raised e)
         | (t2, Returned _) \<Rightarrow>
             (case call w t2 PgCommit of
                (t3, Raised e) \<Rightarrow> (t3, Raised e)
              | (t3, Returned _) \<Rightarrow> (t3, Returned ())))"

definition drop_external_query :: "string \<Rightarrow> string" where
  "drop_external_query table_name = ''DROP EXTERNAL TABLE IF EXISTS '' @ table_name @ '';''"

definition drop_external_table :: "world \<Rightarrow> event list \<Rightarrow> string \<Rightarrow> event list \<times> unit outcome" where
  "drop_external_table w t table_name =
     (case call w t (PgExecute (drop_external_query table_name)) of
        (t1, Raised e) \<Rightarrow> (t1, Raised e)
      | (t1, Returned _) \<Rightarrow>
          (case call w t1 PgCommit of
             (t2, Raised e) \<Rightarrow> (t2, Raised e)
           | (t2, Returned _) \<Rightarrow> (t2, Returned ())))"

section \<open>The handler of \<^verbatim>\<open>/columns_input\<close>\<close>

text \<open>The first \<^verbatim>\<open>try\<close> block (lines 159 to 162): connect, then create the external table.\<close>

definition connect_and_create ::
  "world \<Rightarrow> config \<Rightarrow> string \<Rightarrow> string \<Rightarrow> string \<Rightarrow> string \<Rightarrow> event list \<times> unit outcome" where
  "connect_and_create w cfg table_name hdfs_file_path columns_definition delimiter =
     (case call w [] (PgConnect (DB_PARAMS cfg)) of
        (t, Raised e) \<Rightarrow> (t, Raised e)
      | (t, Returned _) \<Rightarrow>
          create_external_table w t (SCHEMA_EXTERNAL cfg) table_name hdfs_file_path
            columns_definition delimiter)"

definition columns_definition_of :: "string list \<Rightarrow> string list \<Rightarrow> string" where
  "columns_definition_of columns_info types_info =
     join '', '' (map (\<lambda>(col, typ). col @ '' '' @ typ) (zip columns_info types_info))"

definition columns_input ::
  "world \<Rightarrow> config \<Rightarrow> client \<Rightarrow> request \<Rightarrow> event list \<times> response outcome" where
  "columns_input w cfg webhdfs_client rq =
     (let hdfs_file_path = form_get (req_form rq) ''hdfs_file_path'';
          hdfs_directory = form_get (req_form rq) ''hdfs_directory'';
          table_name = form_get (req_form rq) ''table_name'';
          columns_info = form_getlist (req_form rq) ''columns_info'';
          types_info = form_getlist (req_form rq) ''types_info'';
          delimiter = form_get (req_form rq) ''delimiter''
      in
      if \<not> truthy hdfs_file_path \<or> \<not> truthy table_name \<or> columns_info = [] \<or> types_info = []
         \<or> \<not> truthy delimiter
      then ([Flash (Msg 152 []) ''danger''], Returned Redirect_index)
      else
       (let columns_definition = columns_definition_of columns_info types_info in
        case connect_and_create w cfg (fmt table_name) (fmt hdfs_file_path) columns_definition
               (fmt delimiter) of
          (t1, Raised e) \<Rightarrow>
            (t1 @ [Flash (Msg 164 [Exn e]) ''danger'', Log Error (Msg 165 [Exn e])],
             Returned Redirect_index)
        | (t1, Returned _) \<Rightarrow>
            (case create_table_from_external w t1 (SCHEMA_INTERNAL cfg)
                    (SCHEMA_EXTERNAL cfg @ ''.'' @ fmt table_name) (fmt table_name) of
               (t2, Raised e) \<Rightarrow>
                 (t2 @ [Flash (Msg 173 [Exn e]) ''danger'', Log Error (Msg 174 [Exn e])],
                  Returned Redirect_index)
             | (t2, Returned _) \<Rightarrow>
                 (case drop_external_table w t2 (SCHEMA_EXTERNAL cfg @ ''.'' @ fmt table_name) of
                    (t3, Raised e) \<Rightarrow>
                      (t3 @ [Flash (Msg 182 [Exn e]) ''danger'', Log Error (Msg 183 [Exn e])],
                       Returned Redirect_index)
                  | (t3, Returned _) \<Rightarrow>
                      (case call w t3 (HdfsDeleteFile webhdfs_client hdfs_directory True) of
                         (t4, Raised e) \<Rightarrow> (t4, Raised e)
                       | (t4, Returned _) \<Rightarrow>
                           (t4 @ [Log Info (Msg 187 [Str hdfs_directory])],
                            Returned (Redirect_success table_name table_name)))))))"

section \<open>The handler of \<^verbatim>\<open>/\<close>\<close>

text \<open>
  Local file operations. \<^verbatim>\<open>FileStorage.save\<close> (line 97) writes to a path built from the
  file name of the request, which is not sanitised: whether it raises is the world's
  \<open>fs_save_error\<close>. The other three act on paths the handler has just dealt with and are
  modelled as succeeding: \<^verbatim>\<open>os.makedirs\<close> is only called on \<^verbatim>\<open>temp\<close> when nothing of that
  name exists, \<^verbatim>\<open>to_csv\<close> rewrites and \<^verbatim>\<open>os.remove\<close> removes the file that \<^verbatim>\<open>save\<close> has
  written.
\<close>

definition os_path_exists :: "local_fs \<Rightarrow> string \<Rightarrow> bool" where
  "os_path_exists fs p = (p \<in> dirs fs \<or> files fs p \<noteq> None)"

definition os_makedirs :: "local_fs \<Rightarrow> string \<Rightarrow> local_fs" where
  "os_makedirs fs p = fs\<lparr>dirs := insert p (dirs fs)\<rparr>"

definition write_local :: "local_fs \<Rightarrow> string \<Rightarrow> content \<Rightarrow> local_fs" where
  "write_local fs p c = fs\<lparr>files := (files fs)(p \<mapsto> c)\<rparr>"

definition os_remove :: "local_fs \<Rightarrow> string \<Rightarrow> local_fs" where
  "os_remove fs p = fs\<lparr>files := (files fs)(p := None)\<rparr>"

text \<open>\<^verbatim>\<open>FileStorage.save(path)\<close> of an upload with the content \<open>c\<close>.\<close>

definition save :: "world \<Rightarrow> local_fs \<Rightarrow> string \<Rightarrow> content \<Rightarrow> local_fs outcome" where
  "save w fs p c =
     (case fs_save_error w fs p of
        Some e \<Rightarrow> Raised e
      | None \<Rightarrow> Returned (write_local fs p c))"

text \<open>
  pandas. On a plain comma-separated file the model fixes what \<^verbatim>\<open>pd.read_csv(path)\<close>
  returns: the fields of the first line are the column names, every other line is one row.
  A file is plain when it has a first line, every line consists of printable ASCII
  characters other than the double quote and has a character that is not a space (pandas
  skips blank lines), the names of the first line are distinct and not empty (pandas
  renames the others), and every other line has as many fields as the first. On every
  other file what pandas returns, or raises, is the world's \<open>pd_read_csv\<close>.
\<close>

definition plain_char :: "char \<Rightarrow> bool" where
  "plain_char c = (32 \<le> (of_char c :: nat) \<and> (of_char c :: nat) \<le> 126 \<and> c \<noteq> CHR 0x22)"

definition plain_line :: "string \<Rightarrow> bool" where
  "plain_line l = (list_all plain_char l \<and> list_ex (\<lambda>c. c \<noteq> CHR '' '') l)"

definition plain_csv :: "content \<Rightarrow> bool" where
  "plain_csv ls =
     (case ls of
        [] \<Rightarrow> False
      | h # rows \<Rightarrow>
          list_all plain_line (h # rows)
          \<and> distinct (split_on CHR '','' h)
          \<and> [] \<notin> set (split_on CHR '','' h)
          \<and> list_all (\<lambda>r. length (split_on CHR '','' r) = length (split_on CHR '','' h)) rows)"

definition read_csv :: "world \<Rightarrow> content option \<Rightarrow> dataframe outcome" where
  "read_csv w c =
     (case c of
        Some (h # rows) \<Rightarrow>
          if plain_csv (h # rows)
          then Returned \<lparr>columns = split_on CHR '','' h,
                          data_rows = map (split_on CHR '','') rows\<rparr>
          else pd_read_csv w c
      | _ \<Rightarrow> pd_read_csv w c)"

text \<open>
  \<^verbatim>\<open>df.to_csv(path, index=False, header=header)\<close>: the line of the column names when
  \<open>header\<close> is set (\<^verbatim>\<open>index\<close> passes \<^verbatim>\<open>False\<close>), then one line for each row; no index
  column.
\<close>

definition to_csv :: "world \<Rightarrow> dataframe \<Rightarrow> bool \<Rightarrow> content" where
  "to_csv w df header =
     (if header then [join '','' (columns df)] else []) @ map (pd_to_csv w df) (data_rows df)"

text \<open>\<^verbatim>\<open>request.files.keys()\<close>: every key once, in the order of its first occurrence.\<close>

definition keys :: "(string \<times> 'a) list \<Rightarrow> string list" where
  "keys f = rev (remdups (rev (map fst f)))"

text \<open>The second \<^verbatim>\<open>try\<close> block of \<^verbatim>\<open>index\<close> (lines 117 to 121).\<close>

definition upload_to_hdfs ::
  "world \<Rightarrow> client \<Rightarrow> local_fs \<Rightarrow> event list \<Rightarrow> string \<Rightarrow> string \<Rightarrow> string
     \<Rightarrow> event list \<times> unit outcome" where
  "upload_to_hdfs w webhdfs_client fs t local_file_path hdfs_file_path fname =
     (case call w t (HdfsUploadFile webhdfs_client local_file_path hdfs_file_path) of
        (t1, Raised e) \<Rightarrow> (t1, Raised e)
      | (t1, Returned data_node_url) \<Rightarrow>
          if truthy data_node_url then
            (case call w t1 (HdfsWriteFile webhdfs_client data_node_url local_file_path
                     (files fs local_file_path)) of
               (t2, Raised e) \<Rightarrow> (t2, Raised e)
             | (t2, Returned _) \<Rightarrow>
                 (t2 @ [Log Info (Msg 121 [Str (Some fname), Str (Some hdfs_file_path)])],
                  Returned ()))
          else (t1, Returned ()))"

text \<open>What follows the header extraction (lines 110 to 135).\<close>

definition stage_remotely ::
  "world \<Rightarrow> client \<Rightarrow> local_fs \<Rightarrow> event list \<Rightarrow> string \<Rightarrow> string \<Rightarrow> string list
     \<Rightarrow> (event list \<times> local_fs) \<times> response outcome" where
  "stage_remotely w webhdfs_client fs t local_file_path fname headers =
     (let hdfs_directory = ''/projects/vlgmic_'' @ uuid4 w in
      case call w t (HdfsMkdirs webhdfs_client hdfs_directory) of
        (t1, Raised e) \<Rightarrow> ((t1, fs), Raised e)
      | (t1, Returned _) \<Rightarrow>
          (let hdfs_file_path = hdfs_directory @ ''/'' @ fname in
           case upload_to_hdfs w webhdfs_client fs t1 local_file_path hdfs_file_path fname of
            (t2, Raised e) \<Rightarrow>
              (case call w (t2 @ [Flash (Msg 123 [Exn e]) ''danger'', Log Error (Msg 124 [Exn e])])
                      (HdfsDeleteFile webhdfs_client (Some hdfs_directory) True) of
                 (t3, Raised e') \<Rightarrow> ((t3, fs), Raised e')
               | (t3, Returned _) \<Rightarrow>
                   ((t3 @ [Log Info (Msg 127 [Str (Some hdfs_directory)])], fs),
                    Returned Redirect_index))
          | (t2, Returned _) \<Rightarrow>
              ((t2, os_remove fs local_file_path),
               Returned (Render_columns_input headers hdfs_directory hdfs_file_path))))"

definition index ::
  "world \<Rightarrow> client \<Rightarrow> local_fs \<Rightarrow> request \<Rightarrow> (event list \<times> local_fs) \<times> response outcome" where
  "index w webhdfs_client fs rq =
     (if req_method rq = POST then
       (let t0 = [Log Info (Msg 75 [Strs (keys (req_files rq))])] in
        case form_get (req_files rq) ''csv_file'' of
          None \<Rightarrow>
            ((t0 @ [Flash (Msg 78 []) ''danger'', Log Warning (Msg 79 [])], fs),
             Returned Redirect_index)
        | Some local_csv_path \<Rightarrow>
            if filename local_csv_path = [] then
              ((t0 @ [Flash (Msg 86 []) ''danger'', Log Warning (Msg 87 [])], fs),
               Returned Redirect_index)
            else
             (let temp_dir = ''temp'';
                  fs1 = (if \<not> os_path_exists fs temp_dir then os_makedirs fs temp_dir else fs);
                  local_file_path = os_path_join temp_dir (filename local_csv_path)
              in case save w fs1 local_file_path (stream local_csv_path) of
                   Raised e \<Rightarrow> ((t0, fs1), Raised e)
                 | Returned fs2 \<Rightarrow>
                    (case read_csv w (files fs2 local_file_path) of
                       Raised e \<Rightarrow>
                         ((t0 @ [Flash (Msg 106 [Exn e]) ''danger'', Log Error (Msg 107 [Exn e])],
                           fs2),
                          Returned Redirect_index)
                     | Returned df \<Rightarrow>
                         (let headers = columns df;
                              fs3 = write_local fs2 local_file_path (to_csv w df False)
                          in stage_remotely w webhdfs_client fs3
                               (t0 @ [Log Info (Msg 104 [Strs headers])])
                               local_file_path (filename local_csv_path) headers))))
      else (([], fs), Returned Render_index))"

section \<open>Start-up: choosing the WebHDFS endpoint\<close>

text \<open>The body of each \<^verbatim>\<open>try\<close> of \<^verbatim>\<open>init_webhdfs_client\<close>: build a client, probe it.\<close>

definition probe :: "world \<Rightarrow> event list \<Rightarrow> string \<Rightarrow> string \<Rightarrow> event list \<times> client outcome" where
  "probe w t url user =
     (case call w t (HdfsNew url user) of
        (t1, Raised e) \<Rightarrow> (t1, Raised e)
      | (t1, Returned _) \<Rightarrow>
          (let client = \<lparr>base_url = url, username = user\<rparr> in
           case call w t1 (HdfsListStatus client ''/'') of
             (t2, Raised e) \<Rightarrow> (t2, Raised e)
           | (t2, Returned _) \<Rightarrow> (t2, Returned client)))"

definition init_webhdfs_client :: "world \<Rightarrow> config \<Rightarrow> event list \<times> client option" where
  "init_webhdfs_client w cfg =
     (case probe w [] (primary_url cfg) (hdfs_username cfg) of
        (t1, Returned client) \<Rightarrow> (t1, Some client)
      | (t1, Raised e) \<Rightarrow>
          (case probe w (t1 @ [Log Error (Msg 55 [Exn e])]) (standby_url cfg) (hdfs_username cfg) of
             (t2, Returned client) \<Rightarrow> (t2, Some client)
           | (t2, Raised e') \<Rightarrow> (t2 @ [Log Error (Msg 61 [Exn e'])], None)))"

text \<open>Lines 66 to 69, run once when the module is loaded.\<close>

definition startup :: "world \<Rightarrow> config \<Rightarrow> event list \<times> client outcome" where
  "startup w cfg =
     (case init_webhdfs_client w cfg of
        (t, Some webhdfs_client) \<Rightarrow> (t, Returned webhdfs_client)
      | (t, None) \<Rightarrow> (t @ [Log Critical (Msg 68 [])], Raised NoHdfsEndpoint))"

section \<open>Observations on a run\<close>

text \<open>The calls of a run, in order, each with what came back.\<close>

fun calls :: "event list \<Rightarrow> (call \<times> string option outcome) list" where
  "calls [] = []"
| "calls (Called c r # es) = (c, r) # calls es"
| "calls (Log l m # es) = calls es"
| "calls (Flash m k # es) = calls es"
| "calls (Print s # es) = calls es"

fun is_pg :: "call \<Rightarrow> bool" where
  "is_pg (PgConnect p) = True"
| "is_pg (PgExecute s) = True"
| "is_pg PgCommit = True"
| "is_pg _ = False"

fun is_delete :: "call \<Rightarrow> bool" where
  "is_delete (HdfsDeleteFile c p r) = True"
| "is_delete _ = False"

fun returned :: "'a outcome \<Rightarrow> bool" where
  "returned (Returned v) = True"
| "returned (Raised e) = False"

text \<open>The submission passes the check of line 151.\<close>

definition valid_submission :: "request \<Rightarrow> bool" where
  "valid_submission rq =
     (\<not> (\<not> truthy (form_get (req_form rq) ''hdfs_file_path'')
         \<or> \<not> truthy (form_get (req_form rq) ''table_name'')
         \<or> form_getlist (req_form rq) ''columns_info'' = []
         \<or> form_getlist (req_form rq) ''types_info'' = []
         \<or> \<not> truthy (form_get (req_form rq) ''delimiter'')))"

text \<open>
  The three statements \<^verbatim>\<open>columns_input\<close> sends for a submission, and the database calls
  of its three sub-steps in the order of the source.
\<close>

definition q_create :: "config \<Rightarrow> request \<Rightarrow> string" where
  "q_create cfg rq =
     create_external_query (SCHEMA_EXTERNAL cfg) (fmt (form_get (req_form rq) ''table_name''))
       (fmt (form_get (req_form rq) ''hdfs_file_path''))
       (columns_definition_of (form_getlist (req_form rq) ''columns_info'')
          (form_getlist (req_form rq) ''types_info''))
       (fmt (form_get (req_form rq) ''delimiter''))"

definition q_ctas :: "config \<Rightarrow> request \<Rightarrow> string" where
  "q_ctas cfg rq =
     create_table_query (SCHEMA_INTERNAL cfg)
       (SCHEMA_EXTERNAL cfg @ ''.'' @ fmt (form_get (req_form rq) ''table_name''))
       (fmt (form_get (req_form rq) ''table_name''))"

definition q_drop :: "config \<Rightarrow> request \<Rightarrow> string" where
  "q_drop cfg rq =
     drop_external_query (SCHEMA_EXTERNAL cfg @ ''.'' @ fmt (form_get (req_form rq) ''table_name''))"

definition db_plan :: "config \<Rightarrow> request \<Rightarrow> call list" where
  "db_plan cfg rq =
     [PgConnect (DB_PARAMS cfg),
      PgExecute (q_create cfg rq), PgCommit,
      PgExecute (q_ctas cfg rq), PgCommit,
      PgExecute (q_drop cfg rq), PgCommit]"

text \<open>The delete of line 186.\<close>

definition cleanup :: "client \<Rightarrow> request \<Rightarrow> call" where
  "cleanup cl rq = HdfsDeleteFile cl (form_get (req_form rq) ''hdfs_directory'') True"

text \<open>The calls of a run with whether each returned, and a sequence of calls that all did.\<close>

definition history :: "event list \<Rightarrow> (call \<times> bool) list" where
  "history t = map (\<lambda>cr. (fst cr, returned (snd cr))) (calls t)"

definition successes :: "call list \<Rightarrow> (call \<times> bool) list" where
  "successes plan = map (\<lambda>c. (c, True)) plan"

text \<open>The ways a sequence of calls stops at its first failure.\<close>

fun failures :: "call list \<Rightarrow> (call \<times> bool) list list" where
  "failures [] = []"
| "failures (c # cs) = [(c, False)] # map ((#) (c, True)) (failures cs)"

text \<open>
  The three database sub-steps succeeded in a run: its database calls are the connection,
  then each statement and its commit, in the order of the source, and all of them returned.
\<close>

definition sub_steps_succeeded :: "config \<Rightarrow> request \<Rightarrow> event list \<Rightarrow> bool" where
  "sub_steps_succeeded cfg rq t =
     (map (\<lambda>cr. (fst cr, returned (snd cr))) (filter (\<lambda>cr. is_pg (fst cr)) (calls t))
        = map (\<lambda>c. (c, True)) (db_plan cfg rq))"


definition deletes :: "event list \<Rightarrow> (call \<times> string option outcome) list" where
  "deletes t = filter (\<lambda>cr. is_delete (fst cr)) (calls t)"

fun is_upload :: "call \<Rightarrow> bool" where
  "is_upload (HdfsUploadFile c l r) = True"
| "is_upload (HdfsWriteFile c u l d) = True"
| "is_upload _ = False"

fun is_write :: "call \<Rightarrow> bool" where
  "is_write (HdfsWriteFile c u l d) = True"
| "is_write _ = False"

text \<open>The calls of the upload step (negotiation, transfer) that raised.\<close>

definition failed_upload :: "event list \<Rightarrow> (call \<times> string option outcome) list" where
  "failed_upload t = filter (\<lambda>cr. is_upload (fst cr) \<and> \<not> returned (snd cr)) (calls t)"

text \<open>The last \<open>n\<close> elements of a list.\<close>

definition lasts :: "nat \<Rightarrow> 'a list \<Rightarrow> 'a list" where
  "lasts n xs = drop (length xs - n) xs"

text \<open>The directory name of line 111.\<close>

definition staging_directory :: "world \<Rightarrow> string" where
  "staging_directory w = ''/projects/vlgmic_'' @ uuid4 w"

text \<open>
  The local path of line 96, the local files once \<^verbatim>\<open>temp\<close> exists (lines 91 to 93), the
  local files once the upload is saved and rewritten without its header, and the remote
  path of line 115.
\<close>

definition local_path :: "file_storage \<Rightarrow> string" where
  "local_path f = os_path_join ''temp'' (filename f)"

definition with_temp_dir :: "local_fs \<Rightarrow> local_fs" where
  "with_temp_dir fs = (if \<not> os_path_exists fs ''temp'' then os_makedirs fs ''temp'' else fs)"

definition staged_fs :: "world \<Rightarrow> local_fs \<Rightarrow> file_storage \<Rightarrow> dataframe \<Rightarrow> local_fs" where
  "staged_fs w fs f df =
     write_local (write_local (with_temp_dir fs) (local_path f) (stream f))
       (local_path f) (to_csv w df False)"

definition staged_path :: "world \<Rightarrow> file_storage \<Rightarrow> string" where
  "staged_path w f = staging_directory w @ ''/'' @ filename f"

text \<open>The same request with every \<^verbatim>\<open>hdfs_directory\<close> field taken out of the form.\<close>

definition without_directory :: "request \<Rightarrow> request" where
  "without_directory rq =
     rq\<lparr>req_form := filter (\<lambda>kv. fst kv \<noteq> ''hdfs_directory'') (req_form rq)\<rparr>"

text \<open>
  What a run shows of a delete that is not guarded: it has at most one delete call, on
  \<open>del\<close>; if the call raised, the run ends there with that exception; if it returned, the
  run ends with the log line \<open>m\<close> and the response \<open>resp\<close>.
\<close>

definition unguarded_delete ::
  "event list \<Rightarrow> response outcome \<Rightarrow> call \<Rightarrow> msg \<Rightarrow> response \<Rightarrow> bool" where
  "unguarded_delete t out del m resp =
     (case deletes t of
        [] \<Rightarrow> True
      | [(c, Raised e)] \<Rightarrow> c = del \<and> out = Raised e \<and> last t = Called c (Raised e)
      | [(c, Returned v)] \<Rightarrow>
          c = del \<and> out = Returned resp \<and> lasts 2 t = [Called c (Returned v), Log Info m]
      | _ \<Rightarrow> False)"

text \<open>The two calls of a probe; the calls a handler must not make after start-up.\<close>

definition probe_plan :: "string \<Rightarrow> string \<Rightarrow> call list" where
  "probe_plan url user = [HdfsNew url user, HdfsListStatus \<lparr>base_url = url, username = user\<rparr> ''/'']"

fun is_probe :: "call \<Rightarrow> bool" where
  "is_probe (HdfsNew url user) = True"
| "is_probe (HdfsListStatus c p) = True"
| "is_probe _ = False"

text \<open>The client a call is made on.\<close>

fun client_of :: "call \<Rightarrow> client option" where
  "client_of (HdfsListStatus c p) = Some c"
| "client_of (HdfsMkdirs c p) = Some c"
| "client_of (HdfsUploadFile c l r) = Some c"
| "client_of (HdfsWriteFile c u l d) = Some c"
| "client_of (HdfsDeleteFile c p r) = Some c"
| "client_of _ = None"



text \<open>The handler returned the mapping form.\<close>

fun reached_form :: "response outcome \<Rightarrow> bool" where
  "reached_form (Returned (Render_columns_input h d p)) = True"
| "reached_form _ = False"

section \<open>Concrete inputs\<close>

text \<open>\<^verbatim>\<open>os.path.dirname(p)\<close> on POSIX.\<close>

definition dirname :: "string \<Rightarrow> string" where
  "dirname p =
     (let h = rev (dropWhile (\<lambda>c. c \<noteq> CHR ''/'') (rev p))
      in if list_all (\<lambda>c. c = CHR ''/'') h then h
         else rev (dropWhile (\<lambda>c. c = CHR ''/'') (rev h)))"

text \<open>A \<^verbatim>\<open>save\<close> that raises when the directory of the path does not exist.\<close>

definition missing_directory :: "local_fs \<Rightarrow> string \<Rightarrow> exn option" where
  "missing_directory fs p =
     (if dirname p = [] \<or> dirname p \<in> dirs fs then None
      else Some (LibError (''[Errno 2] No such file or directory: '' @ q @ p @ q)))"

text \<open>
  A world in which the calls numbered in \<open>ns\<close> (from 0, in the order the program makes
  them) raise, and every other call returns \<open>v\<close>. Its \<^verbatim>\<open>save\<close> needs the directory of the
  path. Its pandas writes the fields of a row as they were read, which is what pandas does
  with the integers and words of the file \<^verbatim>\<open>data.csv\<close> below, and rejects every file that
  is not plain; the runs below read no such file.
\<close>

definition world_failing :: "nat list \<Rightarrow> string option \<Rightarrow> world" where
  "world_failing ns v =
     \<lparr>reply = (\<lambda>t c. if length (calls t) \<in> set ns then Raised (LibError ''boom'') else Returned v),
      pd_read_csv = (\<lambda>c. Raised (LibError ''No columns to parse from file'')),
      pd_to_csv = (\<lambda>df r. join '','' r),
      fs_save_error = missing_directory,
      uuid4 = ''u1''\<rparr>"

definition w_ok :: world where
  "w_ok = world_failing [] None"

definition w_target :: world where
  "w_target = world_failing [] (Some ''http://dn1:9864/w'')"

definition w_ctas_fails :: world where
  "w_ctas_fails = world_failing [3] None"

definition w_delete_fails :: world where
  "w_delete_fails = world_failing [7] None"

definition w_upload_fails :: world where
  "w_upload_fails = world_failing [1] None"

definition w_fail_1_2 :: world where
  "w_fail_1_2 = world_failing [1, 2] None"

definition w_primary_down :: world where
  "w_primary_down = world_failing [0] None"

definition cfg0 :: config where
  "cfg0 = \<lparr>primary_url = ''http://nn1:9870'', standby_url = ''http://nn2:9870'',
           hdfs_username = ''hdfs'',
           DB_PARAMS = \<lparr>dbname = ''dwh'', db_user = ''etl'', db_password = ''pw'',
                        db_host = ''localhost'', db_port = ''5432''\<rparr>,
           SCHEMA_EXTERNAL = ''ext'', SCHEMA_INTERNAL = ''int''\<rparr>"

definition cl0 :: client where
  "cl0 = \<lparr>base_url = ''http://nn1:9870'', username = ''hdfs''\<rparr>"

definition fs0 :: local_fs where
  "fs0 = \<lparr>dirs = {}, files = Map.empty\<rparr>"

definition mapping_form :: "(string \<times> string) list" where
  "mapping_form =
     [(''hdfs_file_path'', ''/projects/vlgmic_u1/data.csv''),
      (''hdfs_directory'', ''/projects/vlgmic_u1''),
      (''table_name'', ''t1''),
      (''columns_info'', ''id''), (''columns_info'', ''name''),
      (''types_info'', ''int''), (''types_info'', ''text''),
      (''delimiter'', '','')]"

definition rq_mapping :: request where
  "rq_mapping = \<lparr>req_method = POST, req_form = mapping_form, req_files = []\<rparr>"

definition rq_upload :: request where
  "rq_upload =
     \<lparr>req_method = POST, req_form = [],
      req_files = [(''csv_file'', \<lparr>filename = ''data.csv'', stream = [''id,name'', ''1,a'', ''2,b'']\<rparr>)]\<rparr>"

definition rq_subdir :: request where
  "rq_subdir =
     \<lparr>req_method = POST, req_form = [],
      req_files = [(''csv_file'',
         \<lparr>filename = ''sub/data.csv'', stream = [''id,name'', ''1,a'', ''2,b'']\<rparr>)]\<rparr>"

definition rq_no_file :: request where
  "rq_no_file = \<lparr>req_method = POST, req_form = [], req_files = []\<rparr>"

definition rq_no_directory :: request where
  "rq_no_directory = without_directory rq_mapping"

definition rq_uneven :: request where
  "rq_uneven =
     \<lparr>req_method = POST,
      req_form = [(''hdfs_file_path'', ''/projects/vlgmic_u1/data.csv''),
                  (''hdfs_directory'', ''/projects/vlgmic_u1''),
                  (''table_name'', ''t1''),
                  (''columns_info'', ''id''), (''columns_info'', ''name''),
                  (''types_info'', ''int''),
                  (''delimiter'', '','')],
      req_files = []\<rparr>"

section \<open>Proofs\<close>

subsection \<open>The runs of \<^verbatim>\<open>columns_input\<close>\<close>

text \<open>A call returns or raises; each function then has finitely many runs.\<close>

lemma call_cases:
  obtains (raised) e where "call w t c = (t @ [Called c (Raised e)], Raised e)"
  | (returned) v where "call w t c = (t @ [Called c (Returned v)], Returned v)"
  by (cases "reply w t c") (auto simp: call_def)

lemma create_external_table_cases:
  fixes w t s n p cd d
  defines "qu \<equiv> create_external_query s n p cd d"
  defines "t1 \<equiv> t @ [Log Info (Msg 244 [Str (Some qu)]), Print qu]"
  obtains
    (exec_raised) e where
      "create_external_table w t s n p cd d =
         (t1 @ [Called (PgExecute qu) (Raised e), Log Error (Msg 250 [Str (Some s), Str (Some n), Exn e])],
          Raised e)"
  | (commit_raised) v e where
      "create_external_table w t s n p cd d =
         (t1 @ [Called (PgExecute qu) (Returned v), Called PgCommit (Raised e),
                Log Error (Msg 250 [Str (Some s), Str (Some n), Exn e])], Raised e)"
  | (succeeded) v v' where
      "create_external_table w t s n p cd d =
         (t1 @ [Called (PgExecute qu) (Returned v), Called PgCommit (Returned v'),
                Log Info (Msg 248 [Str (Some s), Str (Some n)])], Returned ())"
proof (cases rule: call_cases [of w t1 "PgExecute qu"])
  case (raised e)
  then show ?thesis
    using exec_raised [of e] by (simp add: create_external_table_def Let_def qu_def t1_def)
next
  case exec: (returned v)
  show ?thesis
  proof (cases rule: call_cases [of w "t1 @ [Called (PgExecute qu) (Returned v)]" PgCommit])
    case (raised e)
    with exec show ?thesis
      using commit_raised [of v e] by (simp add: create_external_table_def Let_def qu_def t1_def)
  next
    case (returned v')
    with exec show ?thesis
      using succeeded [of v v'] by (simp add: create_external_table_def Let_def qu_def t1_def)
  qed
qed

lemma create_table_from_external_cases:
  fixes w t s x n
  defines "qu \<equiv> create_table_query s x n"
  defines "t1 \<equiv> t @ [Log Info (Msg 260 [Str (Some qu)])]"
  obtains
    (exec_raised) e where
      "create_table_from_external w t s x n = (t1 @ [Called (PgExecute qu) (Raised e)], Raised e)"
  | (commit_raised) v e where
      "create_table_from_external w t s x n =
         (t1 @ [Called (PgExecute qu) (Returned v), Called PgCommit (Raised e)], Raised e)"
  | (succeeded) v v' where
      "create_table_from_external w t s x n =
         (t1 @ [Called (PgExecute qu) (Returned v), Called PgCommit (Returned v')], Returned ())"
proof (cases rule: call_cases [of w t1 "PgExecute qu"])
  case (raised e)
  then show ?thesis
    using exec_raised [of e] by (simp add: create_table_from_external_def Let_def qu_def t1_def)
next
  case exec: (returned v)
  show ?thesis
  proof (cases rule: call_cases [of w "t1 @ [Called (PgExecute qu) (Returned v)]" PgCommit])
    case (raised e)
    with exec show ?thesis
      using commit_raised [of v e]
      by (simp add: create_table_from_external_def Let_def qu_def t1_def)
  next
    case (returned v')
    with exec show ?thesis
      using succeeded [of v v']
      by (simp add: create_table_from_external_def Let_def qu_def t1_def)
  qed
qed

lemma drop_external_table_cases:
  fixes w t n
  defines "qu \<equiv> drop_external_query n"
  obtains
    (exec_raised) e where
      "drop_external_table w t n = (t @ [Called (PgExecute qu) (Raised e)], Raised e)"
  | (commit_raised) v e where
      "drop_external_table w t n =
         (t @ [Called (PgExecute qu) (Returned v), Called PgCommit (Raised e)], Raised e)"
  | (succeeded) v v' where
      "drop_external_table w t n =
         (t @ [Called (PgExecute qu) (Returned v), Called PgCommit (Returned v')], Returned ())"
proof (cases rule: call_cases [of w t "PgExecute qu"])
  case (raised e)
  then show ?thesis
    using exec_raised [of e] by (simp add: drop_external_table_def qu_def)
next
  case exec: (returned v)
  show ?thesis
  proof (cases rule: call_cases [of w "t @ [Called (PgExecute qu) (Returned v)]" PgCommit])
    case (raised e)
    with exec show ?thesis
      using commit_raised [of v e] by (simp add: drop_external_table_def qu_def)
  next
    case (returned v')
    with exec show ?thesis
      using succeeded [of v v'] by (simp add: drop_external_table_def qu_def)
  qed
qed

text \<open>The nine runs of an accepted submission.\<close>

lemma columns_input_cases:
  fixes w cfg cl rq
  assumes ok: "valid_submission rq"
  defines "q1 \<equiv> q_create cfg rq" and "q2 \<equiv> q_ctas cfg rq" and "q3 \<equiv> q_drop cfg rq"
  defines "tn \<equiv> form_get (req_form rq) ''table_name''"
  defines "conn \<equiv> PgConnect (DB_PARAMS cfg)"
  defines "A \<equiv> \<lambda>v0. [Called conn (Returned v0), Log Info (Msg 244 [Str (Some q1)]), Print q1]"
  defines "B \<equiv> \<lambda>v0 v1 v2. A v0 @ [Called (PgExecute q1) (Returned v1), Called PgCommit (Returned v2),
      Log Info (Msg 248 [Str (Some (SCHEMA_EXTERNAL cfg)), Str (Some (fmt tn))]),
      Log Info (Msg 260 [Str (Some q2)])]"
  defines "C \<equiv> \<lambda>v0 v1 v2 v3 v4. B v0 v1 v2 @
      [Called (PgExecute q2) (Returned v3), Called PgCommit (Returned v4)]"
  defines "D \<equiv> \<lambda>v0 v1 v2 v3 v4 v5 v6. C v0 v1 v2 v3 v4 @
      [Called (PgExecute q3) (Returned v5), Called PgCommit (Returned v6)]"
  defines "E1 \<equiv> \<lambda>e. [Flash (Msg 164 [Exn e]) ''danger'', Log Error (Msg 165 [Exn e])]"
  defines "E2 \<equiv> \<lambda>e. [Flash (Msg 173 [Exn e]) ''danger'', Log Error (Msg 174 [Exn e])]"
  defines "E3 \<equiv> \<lambda>e. [Flash (Msg 182 [Exn e]) ''danger'', Log Error (Msg 183 [Exn e])]"
  defines "L \<equiv> \<lambda>e. Log Error (Msg 250 [Str (Some (SCHEMA_EXTERNAL cfg)), Str (Some (fmt tn)), Exn e])"
  obtains
    (connect_raised) e where
      "columns_input w cfg cl rq = (Called conn (Raised e) # E1 e, Returned Redirect_index)"
  | (create_exec_raised) v0 e where
      "columns_input w cfg cl rq =
         (A v0 @ [Called (PgExecute q1) (Raised e), L e] @ E1 e, Returned Redirect_index)"
  | (create_commit_raised) v0 v1 e where
      "columns_input w cfg cl rq =
         (A v0 @ [Called (PgExecute q1) (Returned v1), Called PgCommit (Raised e), L e] @ E1 e,
          Returned Redirect_index)"
  | (ctas_exec_raised) v0 v1 v2 e where
      "columns_input w cfg cl rq =
         (B v0 v1 v2 @ [Called (PgExecute q2) (Raised e)] @ E2 e, Returned Redirect_index)"
  | (ctas_commit_raised) v0 v1 v2 v3 e where
      "columns_input w cfg cl rq =
         (B v0 v1 v2 @ [Called (PgExecute q2) (Returned v3), Called PgCommit (Raised e)] @ E2 e,
          Returned Redirect_index)"
  | (drop_exec_raised) v0 v1 v2 v3 v4 e where
      "columns_input w cfg cl rq =
         (C v0 v1 v2 v3 v4 @ [Called (PgExecute q3) (Raised e)] @ E3 e, Returned Redirect_index)"
  | (drop_commit_raised) v0 v1 v2 v3 v4 v5 e where
      "columns_input w cfg cl rq =
         (C v0 v1 v2 v3 v4 @ [Called (PgExecute q3) (Returned v5), Called PgCommit (Raised e)] @ E3 e,
          Returned Redirect_index)"
  | (delete_raised) v0 v1 v2 v3 v4 v5 v6 e where
      "columns_input w cfg cl rq =
         (D v0 v1 v2 v3 v4 v5 v6 @ [Called (cleanup cl rq) (Raised e)], Raised e)"
  | (finished) v0 v1 v2 v3 v4 v5 v6 v7 where
      "columns_input w cfg cl rq =
         (D v0 v1 v2 v3 v4 v5 v6 @ [Called (cleanup cl rq) (Returned v7),
            Log Info (Msg 187 [Str (form_get (req_form rq) ''hdfs_directory'')])],
          Returned (Redirect_success tn tn))"
proof -
  note defs = columns_input_def connect_and_create_def Let_def q1_def q2_def q3_def tn_def
    conn_def A_def B_def C_def D_def E1_def E2_def E3_def L_def q_create_def q_ctas_def
    q_drop_def cleanup_def
  from ok have v: "truthy (form_get (req_form rq) ''hdfs_file_path'')"
    "truthy (form_get (req_form rq) ''table_name'')"
    "form_getlist (req_form rq) ''columns_info'' \<noteq> []"
    "form_getlist (req_form rq) ''types_info'' \<noteq> []"
    "truthy (form_get (req_form rq) ''delimiter'')"
    by (simp_all add: valid_submission_def)
  show thesis
  proof (cases rule: call_cases [of w "[]" conn])
    case (raised e)
    then show ?thesis using v connect_raised [of e] by (simp add: defs)
  next
    case c0: (returned v0)
    show ?thesis
    proof (cases rule: create_external_table_cases [of w "[Called conn (Returned v0)]"
          "SCHEMA_EXTERNAL cfg" "fmt tn" "fmt (form_get (req_form rq) ''hdfs_file_path'')"
          "columns_definition_of (form_getlist (req_form rq) ''columns_info'')
             (form_getlist (req_form rq) ''types_info'')"
          "fmt (form_get (req_form rq) ''delimiter'')"])
      case (exec_raised e)
      with c0 show ?thesis using v create_exec_raised [of v0 e] by (simp add: defs)
    next
      case (commit_raised v1 e)
      with c0 show ?thesis using v create_commit_raised [of v0 v1 e] by (simp add: defs)
    next
      case c1: (succeeded v1 v2)
      show ?thesis
      proof (cases rule: create_table_from_external_cases [of w "take 6 (B v0 v1 v2)"
            "SCHEMA_INTERNAL cfg" "SCHEMA_EXTERNAL cfg @ ''.'' @ fmt tn" "fmt tn"])
        case (exec_raised e)
        with c0 c1 show ?thesis using v ctas_exec_raised [of v0 v1 v2 e] by (simp add: defs)
      next
        case (commit_raised v3 e)
        with c0 c1 show ?thesis using v ctas_commit_raised [of v0 v1 v2 v3 e] by (simp add: defs)
      next
        case c2: (succeeded v3 v4)
        show ?thesis
        proof (cases rule: drop_external_table_cases [of w "C v0 v1 v2 v3 v4"
              "SCHEMA_EXTERNAL cfg @ ''.'' @ fmt tn"])
          case (exec_raised e)
          with c0 c1 c2 show ?thesis
            using v drop_exec_raised [of v0 v1 v2 v3 v4 e] by (simp add: defs)
        next
          case (commit_raised v5 e)
          with c0 c1 c2 show ?thesis
            using v drop_commit_raised [of v0 v1 v2 v3 v4 v5 e] by (simp add: defs)
        next
          case c3: (succeeded v5 v6)
          show ?thesis
          proof (cases rule: call_cases [of w "D v0 v1 v2 v3 v4 v5 v6" "cleanup cl rq"])
            case (raised e)
            with c0 c1 c2 c3 show ?thesis
              using v delete_raised [of v0 v1 v2 v3 v4 v5 v6 e] by (simp add: defs)
          next
            case (returned v7)
            with c0 c1 c2 c3 show ?thesis
              using v finished [of v0 v1 v2 v3 v4 v5 v6 v7] by (simp add: defs)
          qed
        qed
      qed
    qed
  qed
qed

subsection \<open>Properties of \<^verbatim>\<open>columns_input\<close>\<close>

lemma calls_append [simp]: "calls (xs @ ys) = calls xs @ calls ys"
  by (induction xs rule: calls.induct) simp_all

lemma columns_input_rejected:
  "\<not> valid_submission rq \<Longrightarrow>
     columns_input w cfg cl rq = ([Flash (Msg 152 []) ''danger''], Returned Redirect_index)"
  by (auto simp add: columns_input_def valid_submission_def Let_def)


text \<open>
  C4. In every run of \<^verbatim>\<open>columns_input\<close> the recursive delete of the staging directory
  is called exactly when the three database sub-steps (create external mapping,
  materialize, drop external mapping) have succeeded; it is then called once, with
  \<^verbatim>\<open>recursive=True\<close>, on the submitted \<^verbatim>\<open>hdfs_directory\<close>. In every other run (a rejected
  submission, a failed sub-step) it is not called at all.
\<close>

theorem delete_iff_sub_steps_succeeded:
  "map fst (deletes (fst (columns_input w cfg cl rq))) =
     (if sub_steps_succeeded cfg rq (fst (columns_input w cfg cl rq)) then [cleanup cl rq] else [])"
proof (cases "valid_submission rq")
  case False
  then show ?thesis
    by (simp add: columns_input_rejected deletes_def sub_steps_succeeded_def db_plan_def)
next
  case True
  then show ?thesis
    by (cases rule: columns_input_cases [of rq w cfg cl])
      (simp_all add: deletes_def sub_steps_succeeded_def db_plan_def cleanup_def)
qed


subsection \<open>The runs of \<^verbatim>\<open>index\<close>\<close>

lemma upload_to_hdfs_cases:
  fixes w cl fs t lp rp fname
  defines "up \<equiv> HdfsUploadFile cl lp rp"
  obtains
    (up_raised) e where
      "upload_to_hdfs w cl fs t lp rp fname = (t @ [Called up (Raised e)], Raised e)"
  | (up_no_target) u where "\<not> truthy u"
      "upload_to_hdfs w cl fs t lp rp fname = (t @ [Called up (Returned u)], Returned ())"
  | (up_write_raised) u e where "truthy u"
      "upload_to_hdfs w cl fs t lp rp fname =
         (t @ [Called up (Returned u), Called (HdfsWriteFile cl u lp (files fs lp)) (Raised e)],
          Raised e)"
  | (up_written) u v where "truthy u"
      "upload_to_hdfs w cl fs t lp rp fname =
         (t @ [Called up (Returned u), Called (HdfsWriteFile cl u lp (files fs lp)) (Returned v),
               Log Info (Msg 121 [Str (Some fname), Str (Some rp)])], Returned ())"
proof (cases rule: call_cases [of w t up])
  case (raised e)
  then show ?thesis using up_raised [of e] by (simp add: upload_to_hdfs_def up_def)
next
  case neg: (returned u)
  show ?thesis
  proof (cases "truthy u")
    case False
    with neg show ?thesis using up_no_target [of u] by (simp add: upload_to_hdfs_def up_def)
  next
    case True
    show ?thesis
    proof (cases rule: call_cases [of w "t @ [Called up (Returned u)]"
          "HdfsWriteFile cl u lp (files fs lp)"])
      case (raised e)
      with neg True show ?thesis
        using up_write_raised [of u e] by (simp add: upload_to_hdfs_def up_def)
    next
      case (returned v)
      with neg True show ?thesis
        using up_written [of u v] by (simp add: upload_to_hdfs_def up_def)
    qed
  qed
qed

text \<open>The runs of the staging part of \<^verbatim>\<open>index\<close>.\<close>

lemma stage_remotely_cases:
  fixes w cl fs t lp fname hs
  defines "dir \<equiv> staging_directory w"
  defines "rp \<equiv> staging_directory w @ ''/'' @ fname"
  defines "up \<equiv> HdfsUploadFile cl lp rp"
  defines "wr \<equiv> \<lambda>u. HdfsWriteFile cl u lp (files fs lp)"
  defines "E \<equiv> \<lambda>e r. [Flash (Msg 123 [Exn e]) ''danger'', Log Error (Msg 124 [Exn e]),
      Called (HdfsDeleteFile cl (Some dir) True) r]
      @ (if returned r then [Log Info (Msg 127 [Str (Some dir)])] else [])"
  defines "out \<equiv> \<lambda>r. case r of Raised e' \<Rightarrow> Raised e' | Returned v' \<Rightarrow> Returned Redirect_index"
  defines "mk \<equiv> \<lambda>v. Called (HdfsMkdirs cl dir) (Returned v)"
  obtains
    (mkdirs_raised) e where
      "stage_remotely w cl fs t lp fname hs = ((t @ [Called (HdfsMkdirs cl dir) (Raised e)], fs), Raised e)"
  | (negotiate_raised) v e r where
      "stage_remotely w cl fs t lp fname hs =
         ((t @ [mk v, Called up (Raised e)] @ E e r, fs), out r)"
  | (write_raised) v u e r where "truthy u"
      "stage_remotely w cl fs t lp fname hs =
         ((t @ [mk v, Called up (Returned u), Called (wr u) (Raised e)] @ E e r, fs), out r)"
  | (no_target) v u where "\<not> truthy u"
      "stage_remotely w cl fs t lp fname hs =
         ((t @ [mk v, Called up (Returned u)], os_remove fs lp),
          Returned (Render_columns_input hs dir rp))"
  | (written) v u v' where "truthy u"
      "stage_remotely w cl fs t lp fname hs =
         ((t @ [mk v, Called up (Returned u), Called (wr u) (Returned v'),
                Log Info (Msg 121 [Str (Some fname), Str (Some rp)])], os_remove fs lp),
          Returned (Render_columns_input hs dir rp))"
proof -
  note defs = stage_remotely_def Let_def dir_def rp_def up_def wr_def E_def mk_def out_def
    staging_directory_def
  let ?del = "HdfsDeleteFile cl (Some dir) True"
  let ?F = "\<lambda>e. [Flash (Msg 123 [Exn e]) ''danger'', Log Error (Msg 124 [Exn e])]"
  show thesis
  proof (cases rule: call_cases [of w t "HdfsMkdirs cl dir"])
    case (raised e)
    then have "stage_remotely w cl fs t lp fname hs =
        ((t @ [Called (HdfsMkdirs cl dir) (Raised e)], fs), Raised e)"
      by (simp add: defs)
    then show ?thesis by (rule mkdirs_raised)
  next
    case m: (returned v)
    show ?thesis
    proof (cases rule: upload_to_hdfs_cases [of w cl fs "t @ [mk v]" lp rp fname])
      case ne: (up_raised e)
      show ?thesis
      proof (cases rule: call_cases [of w "t @ [mk v, Called up (Raised e)] @ ?F e" ?del])
        case (raised e')
        with m ne have "stage_remotely w cl fs t lp fname hs =
            ((t @ [mk v, Called up (Raised e)] @ E e (Raised e'), fs), out (Raised e'))"
          by (simp add: defs)
        then show ?thesis by (rule negotiate_raised)
      next
        case (returned v')
        with m ne have "stage_remotely w cl fs t lp fname hs =
            ((t @ [mk v, Called up (Raised e)] @ E e (Returned v'), fs), out (Returned v'))"
          by (simp add: defs)
        then show ?thesis by (rule negotiate_raised)
      qed
    next
      case (up_no_target u)
      with m have "stage_remotely w cl fs t lp fname hs =
          ((t @ [mk v, Called up (Returned u)], os_remove fs lp),
           Returned (Render_columns_input hs dir rp))"
        by (simp add: defs)
      with up_no_target(1) show ?thesis by (rule no_target)
    next
      case wrr: (up_write_raised u e)
      show ?thesis
      proof (cases rule: call_cases
          [of w "t @ [mk v, Called up (Returned u), Called (wr u) (Raised e)] @ ?F e" ?del])
        case (raised e')
        with m wrr have "stage_remotely w cl fs t lp fname hs =
            ((t @ [mk v, Called up (Returned u), Called (wr u) (Raised e)] @ E e (Raised e'), fs),
             out (Raised e'))"
          by (simp add: defs)
        with wrr(1) show ?thesis by (rule write_raised)
      next
        case (returned v')
        with m wrr have "stage_remotely w cl fs t lp fname hs =
            ((t @ [mk v, Called up (Returned u), Called (wr u) (Raised e)] @ E e (Returned v'), fs),
             out (Returned v'))"
          by (simp add: defs)
        with wrr(1) show ?thesis by (rule write_raised)
      qed
    next
      case (up_written u v')
      with m have "stage_remotely w cl fs t lp fname hs =
          ((t @ [mk v, Called up (Returned u), Called (wr u) (Returned v'),
                 Log Info (Msg 121 [Str (Some fname), Str (Some rp)])], os_remove fs lp),
           Returned (Render_columns_input hs dir rp))"
        by (simp add: defs)
      with up_written(1) show ?thesis by (rule written)
    qed
  qed
qed

lemma files_write_local [simp]: "files (write_local fs p c) p = Some c"
  by (simp add: write_local_def)

lemma files_os_remove [simp]: "files (os_remove fs p) p = None"
  by (simp add: os_remove_def)

lemma files_staged_fs [simp]:
  "files (staged_fs w fs f df) (local_path f) = Some (to_csv w df False)"
  by (simp add: staged_fs_def)

lemma index_cases:
  obtains
    (not_post) "req_method rq \<noteq> POST" "index w cl fs rq = (([], fs), Returned Render_index)"
  | (no_file) "req_method rq = POST" "form_get (req_files rq) ''csv_file'' = None"
      "index w cl fs rq =
         (([Log Info (Msg 75 [Strs (keys (req_files rq))]), Flash (Msg 78 []) ''danger'',
            Log Warning (Msg 79 [])], fs), Returned Redirect_index)"
  | (empty_name) f where "req_method rq = POST" "form_get (req_files rq) ''csv_file'' = Some f"
      "filename f = []"
      "index w cl fs rq =
         (([Log Info (Msg 75 [Strs (keys (req_files rq))]), Flash (Msg 86 []) ''danger'',
            Log Warning (Msg 87 [])], fs), Returned Redirect_index)"
  | (save_raised) f e where "req_method rq = POST" "form_get (req_files rq) ''csv_file'' = Some f"
      "filename f \<noteq> []" "fs_save_error w (with_temp_dir fs) (local_path f) = Some e"
      "index w cl fs rq =
         (([Log Info (Msg 75 [Strs (keys (req_files rq))])], with_temp_dir fs), Raised e)"
  | (parse_raised) f e where "req_method rq = POST" "form_get (req_files rq) ''csv_file'' = Some f"
      "filename f \<noteq> []" "fs_save_error w (with_temp_dir fs) (local_path f) = None"
      "read_csv w (Some (stream f)) = Raised e"
      "index w cl fs rq =
         (([Log Info (Msg 75 [Strs (keys (req_files rq))]), Flash (Msg 106 [Exn e]) ''danger'',
            Log Error (Msg 107 [Exn e])],
           write_local (with_temp_dir fs) (local_path f) (stream f)),
          Returned Redirect_index)"
  | (staged) f df where "req_method rq = POST" "form_get (req_files rq) ''csv_file'' = Some f"
      "filename f \<noteq> []" "fs_save_error w (with_temp_dir fs) (local_path f) = None"
      "read_csv w (Some (stream f)) = Returned df"
      "index w cl fs rq =
         stage_remotely w cl (staged_fs w fs f df)
           [Log Info (Msg 75 [Strs (keys (req_files rq))]), Log Info (Msg 104 [Strs (columns df)])]
           (local_path f) (filename f) (columns df)"
proof (cases "req_method rq = POST")
  case False
  then show ?thesis using not_post by (simp add: index_def)
next
  case post: True
  show ?thesis
  proof (cases "form_get (req_files rq) ''csv_file''")
    case None
    with post show ?thesis using no_file by (simp add: index_def)
  next
    case (Some f)
    show ?thesis
    proof (cases "filename f = []")
      case True
      with post Some show ?thesis using empty_name [of f] by (simp add: index_def)
    next
      case name: False
      show ?thesis
      proof (cases "fs_save_error w (with_temp_dir fs) (local_path f)")
        case sv: (Some e)
        with post Some name have "index w cl fs rq =
         (([Log Info (Msg 75 [Strs (keys (req_files rq))])], with_temp_dir fs), Raised e)"
          by (simp add: index_def local_path_def with_temp_dir_def save_def Let_def)
        with post Some name sv show ?thesis by (rule save_raised)
      next
        case sv: None
        show ?thesis
        proof (cases "read_csv w (Some (stream f))")
          case (Raised e)
          with post Some name sv have "index w cl fs rq =
           (([Log Info (Msg 75 [Strs (keys (req_files rq))]), Flash (Msg 106 [Exn e]) ''danger'',
              Log Error (Msg 107 [Exn e])],
             write_local (with_temp_dir fs) (local_path f) (stream f)),
            Returned Redirect_index)"
            by (simp add: index_def local_path_def with_temp_dir_def save_def Let_def)
          with post Some name sv Raised show ?thesis by (rule parse_raised)
        next
          case (Returned df)
          with post Some name sv have "index w cl fs rq =
           stage_remotely w cl (staged_fs w fs f df)
             [Log Info (Msg 75 [Strs (keys (req_files rq))]), Log Info (Msg 104 [Strs (columns df)])]
             (local_path f) (filename f) (columns df)"
            by (simp add: index_def local_path_def with_temp_dir_def staged_fs_def save_def Let_def)
          with post Some name sv Returned show ?thesis by (rule staged)
        qed
      qed
    qed
  qed
qed

text \<open>
  C8. An upload request (\<^verbatim>\<open>POST\<close>) with no \<^verbatim>\<open>csv_file\<close> part, or whose file has an
  empty name, is redirected to the upload form; the run makes no call on the remote
  file system or the database, and the local files are left as they were.
\<close>

theorem missing_file_has_no_effect:
  assumes "req_method rq = POST"
    and "case form_get (req_files rq) ''csv_file'' of None \<Rightarrow> True | Some f \<Rightarrow> filename f = []"
  shows "snd (index w cl fs rq) = Returned Redirect_index
     \<and> calls (fst (fst (index w cl fs rq))) = []
     \<and> snd (fst (index w cl fs rq)) = fs"
  using assms by (cases rule: index_cases [of rq w cl fs]) simp_all

lemmas run_defs = columns_input_def connect_and_create_def create_external_table_def
  create_table_from_external_def drop_external_table_def call_def Let_def
  form_get_def form_getlist_def world_failing_def cfg0_def cl0_def mapping_form_def
  rq_mapping_def w_ok_def w_target_def w_ctas_fails_def w_delete_fails_def w_upload_fails_def
  w_fail_1_2_def w_primary_down_def

lemma valid_rq_mapping: "valid_submission rq_mapping"
  by (simp add: valid_submission_def rq_mapping_def mapping_form_def form_get_def form_getlist_def)

lemma run_all_ok:
  "columns_input w_ok cfg0 cl0 rq_mapping =
     ([Called (PgConnect (DB_PARAMS cfg0)) (Returned None),
       Log Info (Msg 244 [Str (Some (q_create cfg0 rq_mapping))]), Print (q_create cfg0 rq_mapping),
       Called (PgExecute (q_create cfg0 rq_mapping)) (Returned None),
       Called PgCommit (Returned None),
       Log Info (Msg 248 [Str (Some ''ext''), Str (Some ''t1'')]),
       Log Info (Msg 260 [Str (Some (q_ctas cfg0 rq_mapping))]),
       Called (PgExecute (q_ctas cfg0 rq_mapping)) (Returned None),
       Called PgCommit (Returned None),
       Called (PgExecute (q_drop cfg0 rq_mapping)) (Returned None),
       Called PgCommit (Returned None),
       Called (HdfsDeleteFile cl0 (Some ''/projects/vlgmic_u1'') True) (Returned None),
       Log Info (Msg 187 [Str (Some ''/projects/vlgmic_u1'')])],
      Returned (Redirect_success (Some ''t1'') (Some ''t1'')))"
  by (simp add: run_defs q_create_def q_ctas_def q_drop_def)


text \<open>
  The mapping scenario of the specification, every call returning.
\<close>

theorem delete_iff_sub_steps_succeeded_witness:
  "sub_steps_succeeded cfg0 rq_mapping (fst (columns_input w_ok cfg0 cl0 rq_mapping))
   \<and> map fst (deletes (fst (columns_input w_ok cfg0 cl0 rq_mapping)))
       = [HdfsDeleteFile cl0 (Some ''/projects/vlgmic_u1'') True]"
proof -
  have s: "sub_steps_succeeded cfg0 rq_mapping
      (fst (columns_input w_ok cfg0 cl0 rq_mapping))"
    by (simp add: run_all_ok sub_steps_succeeded_def db_plan_def)
  have c: "cleanup cl0 rq_mapping = HdfsDeleteFile cl0 (Some ''/projects/vlgmic_u1'') True"
    by (simp add: cleanup_def rq_mapping_def mapping_form_def form_get_def)
  from s c delete_iff_sub_steps_succeeded [of w_ok cfg0 cl0 rq_mapping] show ?thesis by simp
qed


text \<open>
  A \<^verbatim>\<open>POST\<close> without a file part.
\<close>

theorem missing_file_has_no_effect_witness:
  "req_method rq_no_file = POST
   \<and> form_get (req_files rq_no_file) ''csv_file'' = None
   \<and> index w_ok cl0 fs0 rq_no_file =
       (([Log Info (Msg 75 [Strs []]), Flash (Msg 78 []) ''danger'', Log Warning (Msg 79 [])], fs0),
        Returned Redirect_index)"
proof -
  have a: "req_method rq_no_file = POST" by (simp add: rq_no_file_def)
  have b: "form_get (req_files rq_no_file) ''csv_file'' = None"
    by (simp add: rq_no_file_def form_get_def)
  have c: "case form_get (req_files rq_no_file) ''csv_file'' of None \<Rightarrow> True
      | Some f \<Rightarrow> filename f = []"
    by (simp add: b)
  have d: "index w_ok cl0 fs0 rq_no_file =
       (([Log Info (Msg 75 [Strs []]), Flash (Msg 78 []) ''danger'', Log Warning (Msg 79 [])], fs0),
        Returned Redirect_index)"
    by (simp add: index_def rq_no_file_def form_get_def keys_def)
  from a b d missing_file_has_no_effect [OF a c, of w_ok cl0 fs0] show ?thesis by simp
qed

lemma form_get_filter:
  "k \<noteq> k' \<Longrightarrow> form_get (filter (\<lambda>kv. fst kv \<noteq> k') f) k = form_get f k"
  by (induction f) (auto simp: form_get_def)

lemma form_getlist_filter:
  "k \<noteq> k' \<Longrightarrow> form_getlist (filter (\<lambda>kv. fst kv \<noteq> k') f) k = form_getlist f k"
  by (induction f) (auto simp: form_getlist_def)

lemma columns_definition_of_take:
  "columns_definition_of cols types =
     columns_definition_of (take (min (length cols) (length types)) cols)
       (take (min (length cols) (length types)) types)"
proof -
  have "zip cols types = take (min (length cols) (length types)) (zip cols types)"
    by simp
  also have "\<dots> = zip (take (min (length cols) (length types)) cols)
      (take (min (length cols) (length types)) types)"
    by (rule take_zip)
  finally show ?thesis by (simp add: columns_definition_of_def)
qed

text \<open>
  C10. The required-fields check of \<^verbatim>\<open>columns_input\<close> reads \<^verbatim>\<open>hdfs_file_path\<close>,
  \<^verbatim>\<open>table_name\<close>, \<^verbatim>\<open>columns_info\<close>, \<^verbatim>\<open>types_info\<close> and \<^verbatim>\<open>delimiter\<close>, not
  \<^verbatim>\<open>hdfs_directory\<close>: taking \<^verbatim>\<open>hdfs_directory\<close> out of a form does not change whether it
  is accepted. A submission without \<^verbatim>\<open>hdfs_directory\<close> whose five fields are present is
  not rejected, its first call is the database connection, and once the three database
  sub-steps have succeeded the recursive delete is called with the path \<^verbatim>\<open>None\<close>.
\<close>

theorem missing_directory_reaches_delete:
  "valid_submission (without_directory rq) = valid_submission rq
   \<and> (valid_submission rq \<and> form_get (req_form rq) ''hdfs_directory'' = None \<longrightarrow>
        fst (columns_input w cfg cl rq) \<noteq> [Flash (Msg 152 []) ''danger'']
      \<and> take 1 (map fst (calls (fst (columns_input w cfg cl rq)))) = [PgConnect (DB_PARAMS cfg)]
      \<and> (sub_steps_succeeded cfg rq (fst (columns_input w cfg cl rq)) \<longrightarrow>
           map fst (deletes (fst (columns_input w cfg cl rq))) = [HdfsDeleteFile cl None True]))"
proof (intro conjI impI)
  show "valid_submission (without_directory rq) = valid_submission rq"
    by (simp add: valid_submission_def without_directory_def form_get_filter form_getlist_filter)
next
  assume a: "valid_submission rq \<and> form_get (req_form rq) ''hdfs_directory'' = None"
  then have v: "valid_submission rq" by simp
  from v show "fst (columns_input w cfg cl rq) \<noteq> [Flash (Msg 152 []) ''danger'']"
    by (cases rule: columns_input_cases [of rq w cfg cl]) simp_all
  from v show "take 1 (map fst (calls (fst (columns_input w cfg cl rq)))) = [PgConnect (DB_PARAMS cfg)]"
    by (cases rule: columns_input_cases [of rq w cfg cl]) simp_all
  assume "sub_steps_succeeded cfg rq (fst (columns_input w cfg cl rq))"
  with v a show "map fst (deletes (fst (columns_input w cfg cl rq))) = [HdfsDeleteFile cl None True]"
    by (cases rule: columns_input_cases [of rq w cfg cl])
      (simp_all add: deletes_def sub_steps_succeeded_def db_plan_def cleanup_def)
qed

text \<open>
  C1, as the code has it. \<^verbatim>\<open>columns_input\<close> never compares the lengths of
  \<^verbatim>\<open>columns_info\<close> and \<^verbatim>\<open>types_info\<close>. It rejects a submission before any call exactly
  when one of \<^verbatim>\<open>hdfs_file_path\<close>, \<^verbatim>\<open>table_name\<close>, \<^verbatim>\<open>columns_info\<close>, \<^verbatim>\<open>types_info\<close>,
  \<^verbatim>\<open>delimiter\<close> is missing or empty. Every other submission, whatever the two lengths,
  starts with the database connection and then the create statement, whose column
  definitions pair the two lists up to the length of the shorter one.
\<close>

theorem rejection_ignores_lengths:
  "(columns_input w cfg cl rq = ([Flash (Msg 152 []) ''danger''], Returned Redirect_index))
     = (\<not> valid_submission rq)
   \<and> (valid_submission rq \<longrightarrow>
        calls (fst (columns_input w cfg cl rq)) \<noteq> []
      \<and> prefix (take 2 (map fst (calls (fst (columns_input w cfg cl rq)))))
           [PgConnect (DB_PARAMS cfg), PgExecute (q_create cfg rq)])
   \<and> q_create cfg rq =
       create_external_query (SCHEMA_EXTERNAL cfg) (fmt (form_get (req_form rq) ''table_name''))
         (fmt (form_get (req_form rq) ''hdfs_file_path''))
         (columns_definition_of
            (take (min (length (form_getlist (req_form rq) ''columns_info''))
                       (length (form_getlist (req_form rq) ''types_info'')))
               (form_getlist (req_form rq) ''columns_info''))
            (take (min (length (form_getlist (req_form rq) ''columns_info''))
                       (length (form_getlist (req_form rq) ''types_info'')))
               (form_getlist (req_form rq) ''types_info'')))
         (fmt (form_get (req_form rq) ''delimiter''))"
proof (intro conjI impI)
  show "(columns_input w cfg cl rq = ([Flash (Msg 152 []) ''danger''], Returned Redirect_index))
     = (\<not> valid_submission rq)"
  proof (cases "valid_submission rq")
    case False
    then show ?thesis by (simp add: columns_input_rejected)
  next
    case True
    then show ?thesis by (cases rule: columns_input_cases [of rq w cfg cl]) (simp_all add: True)
  qed
next
  assume v: "valid_submission rq"
  then show "calls (fst (columns_input w cfg cl rq)) \<noteq> []"
    by (cases rule: columns_input_cases [of rq w cfg cl]) simp_all
  from v show "prefix (take 2 (map fst (calls (fst (columns_input w cfg cl rq)))))
           [PgConnect (DB_PARAMS cfg), PgExecute (q_create cfg rq)]"
    by (cases rule: columns_input_cases [of rq w cfg cl]) simp_all
next
  show "q_create cfg rq =
       create_external_query (SCHEMA_EXTERNAL cfg) (fmt (form_get (req_form rq) ''table_name''))
         (fmt (form_get (req_form rq) ''hdfs_file_path''))
         (columns_definition_of
            (take (min (length (form_getlist (req_form rq) ''columns_info''))
                       (length (form_getlist (req_form rq) ''types_info'')))
               (form_getlist (req_form rq) ''columns_info''))
            (take (min (length (form_getlist (req_form rq) ''columns_info''))
                       (length (form_getlist (req_form rq) ''types_info'')))
               (form_getlist (req_form rq) ''types_info'')))
         (fmt (form_get (req_form rq) ''delimiter''))"
    unfolding q_create_def by (subst columns_definition_of_take) (rule refl)
qed

text \<open>
  C2, as the code has it. The recursive delete is not guarded in either handler. In
  \<^verbatim>\<open>columns_input\<close> and in \<^verbatim>\<open>index\<close> alike, a run calls it at most once; when the call
  returns, the deletion is logged and the handler ends with its redirect
  (\<^verbatim>\<open>success\<close>, respectively the upload form); when the call raises, the exception
  leaves the handler: the call is the last event of the run, nothing is logged after it
  and no redirect is produced.
\<close>

theorem delete_is_unguarded:
  "unguarded_delete (fst (columns_input w cfg cl rq)) (snd (columns_input w cfg cl rq))
     (cleanup cl rq) (Msg 187 [Str (form_get (req_form rq) ''hdfs_directory'')])
     (Redirect_success (form_get (req_form rq) ''table_name'') (form_get (req_form rq) ''table_name''))
   \<and> unguarded_delete (fst (fst (index w cl fs rq'))) (snd (index w cl fs rq'))
     (HdfsDeleteFile cl (Some (staging_directory w)) True)
     (Msg 127 [Str (Some (staging_directory w))]) Redirect_index"
proof
  show "unguarded_delete (fst (columns_input w cfg cl rq)) (snd (columns_input w cfg cl rq))
     (cleanup cl rq) (Msg 187 [Str (form_get (req_form rq) ''hdfs_directory'')])
     (Redirect_success (form_get (req_form rq) ''table_name'') (form_get (req_form rq) ''table_name''))"
  proof (cases "valid_submission rq")
    case False
    then show ?thesis by (simp add: columns_input_rejected unguarded_delete_def deletes_def)
  next
    case True
    then show ?thesis
      by (cases rule: columns_input_cases [of rq w cfg cl])
        (simp_all add: unguarded_delete_def deletes_def cleanup_def lasts_def)
  qed
next
  show "unguarded_delete (fst (fst (index w cl fs rq'))) (snd (index w cl fs rq'))
     (HdfsDeleteFile cl (Some (staging_directory w)) True)
     (Msg 127 [Str (Some (staging_directory w))]) Redirect_index"
  proof (cases rule: index_cases [of rq' w cl fs])
    case (staged f df)
    show ?thesis
    proof (cases rule: stage_remotely_cases [of w cl "staged_fs w fs f df"
          "[Log Info (Msg 75 [Strs (keys (req_files rq'))]), Log Info (Msg 104 [Strs (columns df)])]"
          "local_path f" "filename f" "columns df"])
      case (negotiate_raised v e r)
      with staged show ?thesis
        by (cases r) (simp_all add: unguarded_delete_def deletes_def lasts_def)
    next
      case (write_raised v u e r)
      with staged show ?thesis
        by (cases r) (simp_all add: unguarded_delete_def deletes_def lasts_def)
    qed (use staged in \<open>simp_all add: unguarded_delete_def deletes_def lasts_def\<close>)
  qed (simp_all add: unguarded_delete_def deletes_def lasts_def)
qed

subsection \<open>The runs of start-up\<close>

lemma probe_cases:
  fixes w t url user
  defines "c \<equiv> \<lparr>base_url = url, username = user\<rparr>"
  obtains
    (new_raised) e where
      "probe w t url user = (t @ [Called (HdfsNew url user) (Raised e)], Raised e)"
  | (list_raised) v e where
      "probe w t url user =
         (t @ [Called (HdfsNew url user) (Returned v), Called (HdfsListStatus c ''/'') (Raised e)],
          Raised e)"
  | (reachable) v v' where
      "probe w t url user =
         (t @ [Called (HdfsNew url user) (Returned v), Called (HdfsListStatus c ''/'') (Returned v')],
          Returned c)"
proof (cases rule: call_cases [of w t "HdfsNew url user"])
  case (raised e)
  then have "probe w t url user = (t @ [Called (HdfsNew url user) (Raised e)], Raised e)"
    by (simp add: probe_def)
  then show ?thesis by (rule new_raised)
next
  case n: (returned v)
  show ?thesis
  proof (cases rule: call_cases [of w "t @ [Called (HdfsNew url user) (Returned v)]"
        "HdfsListStatus c ''/''"])
    case (raised e)
    with n have "probe w t url user =
         (t @ [Called (HdfsNew url user) (Returned v), Called (HdfsListStatus c ''/'') (Raised e)],
          Raised e)"
      by (simp add: probe_def c_def Let_def)
    then show ?thesis by (rule list_raised)
  next
    case (returned v')
    with n have "probe w t url user =
         (t @ [Called (HdfsNew url user) (Returned v), Called (HdfsListStatus c ''/'') (Returned v')],
          Returned c)"
      by (simp add: probe_def c_def Let_def)
    then show ?thesis by (rule reachable)
  qed
qed

lemma startup_after_primary_failure:
  assumes p: "probe w [] (primary_url cfg) (hdfs_username cfg) = (t1, Raised e)"
    and h: "history t1 \<in> set (failures (probe_plan (primary_url cfg) (hdfs_username cfg)))"
  shows "case snd (startup w cfg) of
      Returned c \<Rightarrow>
        c = \<lparr>base_url = standby_url cfg, username = hdfs_username cfg\<rparr>
        \<and> (\<exists>f \<in> set (failures (probe_plan (primary_url cfg) (hdfs_username cfg))).
              history (fst (startup w cfg)) = f @ successes (probe_plan (standby_url cfg) (hdfs_username cfg)))
    | Raised x \<Rightarrow>
        x = NoHdfsEndpoint
        \<and> (\<exists>f \<in> set (failures (probe_plan (primary_url cfg) (hdfs_username cfg))).
            \<exists>g \<in> set (failures (probe_plan (standby_url cfg) (hdfs_username cfg))).
              history (fst (startup w cfg)) = f @ g)
        \<and> last (fst (startup w cfg)) = Log Critical (Msg 68 [])"
proof (cases rule: probe_cases [of w "t1 @ [Log Error (Msg 55 [Exn e])]" "standby_url cfg"
      "hdfs_username cfg"])
  case (new_raised e')
  with p h show ?thesis
    by (simp add: startup_def init_webhdfs_client_def history_def probe_plan_def successes_def)
next
  case (list_raised v e')
  with p h show ?thesis
    by (simp add: startup_def init_webhdfs_client_def history_def probe_plan_def successes_def)
next
  case (reachable v v')
  with p h show ?thesis
    by (simp add: startup_def init_webhdfs_client_def history_def probe_plan_def successes_def)
qed

lemma startup_run:
  "case snd (startup w cfg) of
      Returned c \<Rightarrow>
        (c = \<lparr>base_url = primary_url cfg, username = hdfs_username cfg\<rparr>
         \<and> history (fst (startup w cfg)) = successes (probe_plan (primary_url cfg) (hdfs_username cfg)))
        \<or> (c = \<lparr>base_url = standby_url cfg, username = hdfs_username cfg\<rparr>
        \<and> (\<exists>f \<in> set (failures (probe_plan (primary_url cfg) (hdfs_username cfg))).
              history (fst (startup w cfg)) = f @ successes (probe_plan (standby_url cfg) (hdfs_username cfg))))
    | Raised x \<Rightarrow>
        x = NoHdfsEndpoint
        \<and> (\<exists>f \<in> set (failures (probe_plan (primary_url cfg) (hdfs_username cfg))).
            \<exists>g \<in> set (failures (probe_plan (standby_url cfg) (hdfs_username cfg))).
              history (fst (startup w cfg)) = f @ g)
        \<and> last (fst (startup w cfg)) = Log Critical (Msg 68 [])"
proof (cases rule: probe_cases [of w "[]" "primary_url cfg" "hdfs_username cfg"])
  case (reachable v v')
  then show ?thesis
    by (simp add: startup_def init_webhdfs_client_def history_def probe_plan_def successes_def)
next
  case (new_raised e)
  have "history ([] @ [Called (HdfsNew (primary_url cfg) (hdfs_username cfg)) (Raised e)])
      \<in> set (failures (probe_plan (primary_url cfg) (hdfs_username cfg)))"
    by (simp add: history_def probe_plan_def)
  from startup_after_primary_failure [OF new_raised this] show ?thesis
    by (cases "snd (startup w cfg)") simp_all
next
  case (list_raised v e)
  have "history ([] @ [Called (HdfsNew (primary_url cfg) (hdfs_username cfg)) (Returned v),
         Called (HdfsListStatus \<lparr>base_url = primary_url cfg, username = hdfs_username cfg\<rparr> ''/'') (Raised e)])
      \<in> set (failures (probe_plan (primary_url cfg) (hdfs_username cfg)))"
    by (simp add: history_def probe_plan_def)
  from startup_after_primary_failure [OF list_raised this] show ?thesis
    by (cases "snd (startup w cfg)") simp_all
qed

lemma columns_input_client:
  "\<forall>c \<in> set (map fst (calls (fst (columns_input w cfg cl rq)))).
      \<not> is_probe c \<and> client_of c \<in> {None, Some cl}"
proof (cases "valid_submission rq")
  case False
  then show ?thesis by (simp add: columns_input_rejected)
next
  case True
  then show ?thesis
    by (cases rule: columns_input_cases [of rq w cfg cl]) (simp_all add: cleanup_def)
qed

lemma index_client:
  "\<forall>c \<in> set (map fst (calls (fst (fst (index w cl fs rq))))).
      \<not> is_probe c \<and> client_of c \<in> {None, Some cl}"
proof (cases rule: index_cases [of rq w cl fs])
  case (staged f df)
  show ?thesis
    by (cases rule: stage_remotely_cases [of w cl "staged_fs w fs f df"
          "[Log Info (Msg 75 [Strs (keys (req_files rq))]), Log Info (Msg 104 [Strs (columns df)])]"
          "local_path f" "filename f" "columns df"])
      (use staged in simp_all)
qed simp_all

lemma index_reached_form:
  assumes "reached_form (snd (index w cl fs rq))"
  obtains f df where "form_get (req_files rq) ''csv_file'' = Some f"
    and "read_csv w (Some (stream f)) = Returned df"
    and "snd (index w cl fs rq) =
           Returned (Render_columns_input (columns df) (staging_directory w) (staged_path w f))"
    and "snd (fst (index w cl fs rq)) = os_remove (staged_fs w fs f df) (local_path f)"
    and "failed_upload (fst (fst (index w cl fs rq))) = []"
proof (cases rule: index_cases [of rq w cl fs])
  case (staged f df)
  have "snd (index w cl fs rq) =
           Returned (Render_columns_input (columns df) (staging_directory w) (staged_path w f))
      \<and> snd (fst (index w cl fs rq)) = os_remove (staged_fs w fs f df) (local_path f)
      \<and> failed_upload (fst (fst (index w cl fs rq))) = []"
  proof (cases rule: stage_remotely_cases [of w cl "staged_fs w fs f df"
          "[Log Info (Msg 75 [Strs (keys (req_files rq))]), Log Info (Msg 104 [Strs (columns df)])]"
          "local_path f" "filename f" "columns df"])
    case (negotiate_raised v e r)
    with staged assms show ?thesis by (cases r) simp_all
  next
    case (write_raised v u e r)
    with staged assms show ?thesis by (cases r) simp_all
  qed (use staged assms in \<open>simp_all add: staged_path_def failed_upload_def\<close>)
  with staged that show ?thesis by blast
qed (use assms in simp_all)

text \<open>
  C7. At start-up the primary endpoint is probed first (a client is built, then
  \<^verbatim>\<open>list_status('/')\<close> is called on it). When both calls return, nothing else is called and
  the primary client is selected. The standby endpoint is probed only after a call of the
  primary probe has raised; when the standby probe succeeds, the standby client is
  selected. When both probes fail, start-up logs a critical message and raises: the
  process does not start. After that, the handlers only call the client they were given:
  \<^verbatim>\<open>index\<close> and \<^verbatim>\<open>columns_input\<close> never build a client, never probe, and never call
  another client.
\<close>

theorem startup_selects_endpoint_once:
  "(case snd (startup w cfg) of
      Returned c \<Rightarrow>
        (c = \<lparr>base_url = primary_url cfg, username = hdfs_username cfg\<rparr>
         \<and> history (fst (startup w cfg)) = successes (probe_plan (primary_url cfg) (hdfs_username cfg)))
        \<or> (c = \<lparr>base_url = standby_url cfg, username = hdfs_username cfg\<rparr>
        \<and> (\<exists>f \<in> set (failures (probe_plan (primary_url cfg) (hdfs_username cfg))).
              history (fst (startup w cfg)) = f @ successes (probe_plan (standby_url cfg) (hdfs_username cfg))))
    | Raised x \<Rightarrow>
        x = NoHdfsEndpoint
        \<and> (\<exists>f \<in> set (failures (probe_plan (primary_url cfg) (hdfs_username cfg))).
            \<exists>g \<in> set (failures (probe_plan (standby_url cfg) (hdfs_username cfg))).
              history (fst (startup w cfg)) = f @ g)
        \<and> last (fst (startup w cfg)) = Log Critical (Msg 68 []))
   \<and> (\<forall>c \<in> set (map fst (calls (fst (fst (index w cl fs rq))))).
         \<not> is_probe c \<and> client_of c \<in> {None, Some cl})
   \<and> (\<forall>c \<in> set (map fst (calls (fst (columns_input w cfg cl rq')))).
         \<not> is_probe c \<and> client_of c \<in> {None, Some cl})"
  by (intro conjI startup_run index_client columns_input_client)

text \<open>
  C5, as the code has it. When the upload step of \<^verbatim>\<open>index\<close> raises (the negotiation or
  the transfer), the handler first records the error (a \<^verbatim>\<open>danger\<close> flash and an error
  log line), then calls the recursive delete on the staging directory it has just created.
  If the delete returns, the deletion is logged and the user is redirected to the upload
  form; if the delete raises, that exception leaves the handler and there is no redirect.
  The local temporary copy: when saving it raises, that exception leaves the handler
  before anything is called, and nothing has been written; when it has been saved, it is
  removed only on runs whose upload step did not raise, which end at the mapping form.
\<close>

theorem upload_failure_cleanup:
  "(failed_upload (fst (fst (index w cl fs rq))) \<noteq> [] \<longrightarrow>
      (\<exists>c e. failed_upload (fst (fst (index w cl fs rq))) = [(c, Raised e)]
         \<and> (case snd (index w cl fs rq) of
              Raised e' \<Rightarrow>
                lasts 4 (fst (fst (index w cl fs rq))) =
                  [Called c (Raised e), Flash (Msg 123 [Exn e]) ''danger'',
                   Log Error (Msg 124 [Exn e]),
                   Called (HdfsDeleteFile cl (Some (staging_directory w)) True) (Raised e')]
            | Returned resp \<Rightarrow>
                resp = Redirect_index
                \<and> (\<exists>v. lasts 5 (fst (fst (index w cl fs rq))) =
                  [Called c (Raised e), Flash (Msg 123 [Exn e]) ''danger'',
                   Log Error (Msg 124 [Exn e]),
                   Called (HdfsDeleteFile cl (Some (staging_directory w)) True) (Returned v),
                   Log Info (Msg 127 [Str (Some (staging_directory w))])])))
      \<and> (\<exists>v. (HdfsMkdirs cl (staging_directory w), Returned v)
                \<in> set (calls (fst (fst (index w cl fs rq)))))
      \<and> (\<forall>f. form_get (req_files rq) ''csv_file'' = Some f \<longrightarrow>
             files (snd (fst (index w cl fs rq))) (local_path f) \<noteq> None))
   \<and> (\<forall>f. req_method rq = POST \<and> form_get (req_files rq) ''csv_file'' = Some f
          \<and> filename f \<noteq> [] \<longrightarrow>
          (case fs_save_error w (with_temp_dir fs) (local_path f) of
             Some e \<Rightarrow>
               index w cl fs rq =
                 (([Log Info (Msg 75 [Strs (keys (req_files rq))])], with_temp_dir fs), Raised e)
           | None \<Rightarrow>
               (files (snd (fst (index w cl fs rq))) (local_path f) = None \<longrightarrow>
                  failed_upload (fst (fst (index w cl fs rq))) = []
                  \<and> reached_form (snd (index w cl fs rq)))))"
proof (cases rule: index_cases [of rq w cl fs])
  case (staged f df)
  show ?thesis
  proof (cases rule: stage_remotely_cases [of w cl "staged_fs w fs f df"
          "[Log Info (Msg 75 [Strs (keys (req_files rq))]), Log Info (Msg 104 [Strs (columns df)])]"
          "local_path f" "filename f" "columns df"])
    case (negotiate_raised v e r)
    with staged show ?thesis
      by (cases r) (simp_all add: failed_upload_def lasts_def)
  next
    case (write_raised v u e r)
    with staged show ?thesis
      by (cases r) (simp_all add: failed_upload_def lasts_def)
  qed (use staged in \<open>simp_all add: failed_upload_def lasts_def\<close>)
qed (simp_all add: failed_upload_def lasts_def)

text \<open>
  C9. When the upload negotiation of \<^verbatim>\<open>index\<close> returns a falsy write target
  (\<^verbatim>\<open>None\<close> or the empty string), the run makes no transfer call, none of its calls
  raises, the handler returns the mapping form, and the local temporary copy is removed.
  The response and the local files are those of a run in which the transfer took place:
  any world with the same pandas and the same identifier whose run contains a transfer
  that returned ends with the same response and the same local files.
\<close>

theorem falsy_target_skips_transfer:
  assumes "(HdfsUploadFile c l r, Returned u) \<in> set (calls (fst (fst (index w cl fs rq))))"
    and "\<not> truthy u"
  shows "filter (\<lambda>cr. is_write (fst cr)) (calls (fst (fst (index w cl fs rq)))) = []
     \<and> list_all (\<lambda>cr. returned (snd cr)) (calls (fst (fst (index w cl fs rq))))
     \<and> reached_form (snd (index w cl fs rq))
     \<and> (\<forall>f. form_get (req_files rq) ''csv_file'' = Some f \<longrightarrow>
           files (snd (fst (index w cl fs rq))) (local_path f) = None)
     \<and> (\<forall>w'. pd_read_csv w' = pd_read_csv w \<and> pd_to_csv w' = pd_to_csv w \<and> uuid4 w' = uuid4 w
           \<and> filter (\<lambda>cr. is_write (fst cr) \<and> returned (snd cr))
                (calls (fst (fst (index w' cl fs rq)))) \<noteq> [] \<longrightarrow>
           snd (index w' cl fs rq) = snd (index w cl fs rq)
           \<and> snd (fst (index w' cl fs rq)) = snd (fst (index w cl fs rq)))"
proof -
  have run: "filter (\<lambda>cr. is_write (fst cr)) (calls (fst (fst (index w cl fs rq)))) = []
     \<and> list_all (\<lambda>cr. returned (snd cr)) (calls (fst (fst (index w cl fs rq))))
     \<and> reached_form (snd (index w cl fs rq))"
  proof (cases rule: index_cases [of rq w cl fs])
    case (staged f df)
    show ?thesis
    proof (cases rule: stage_remotely_cases [of w cl "staged_fs w fs f df"
          "[Log Info (Msg 75 [Strs (keys (req_files rq))]), Log Info (Msg 104 [Strs (columns df)])]"
          "local_path f" "filename f" "columns df"])
      case (negotiate_raised v e r')
      with staged assms show ?thesis by (cases r') auto
    next
      case (write_raised v u' e r')
      with staged assms show ?thesis by (cases r') auto
    qed (use staged assms in auto)
  qed (use assms in simp_all)
  then have rf: "reached_form (snd (index w cl fs rq))" by simp
  from rf obtain f df where f: "form_get (req_files rq) ''csv_file'' = Some f"
    and df: "read_csv w (Some (stream f)) = Returned df"
    and out: "snd (index w cl fs rq) =
           Returned (Render_columns_input (columns df) (staging_directory w) (staged_path w f))"
    and fs': "snd (fst (index w cl fs rq)) = os_remove (staged_fs w fs f df) (local_path f)"
    by (rule index_reached_form)
  have same: "snd (index w' cl fs rq) = snd (index w cl fs rq)
           \<and> snd (fst (index w' cl fs rq)) = snd (fst (index w cl fs rq))"
    if eq: "pd_read_csv w' = pd_read_csv w" "pd_to_csv w' = pd_to_csv w" "uuid4 w' = uuid4 w"
      and wr: "filter (\<lambda>cr. is_write (fst cr) \<and> returned (snd cr))
                (calls (fst (fst (index w' cl fs rq)))) \<noteq> []" for w'
  proof -
    have "reached_form (snd (index w' cl fs rq))"
    proof (cases rule: index_cases [of rq w' cl fs])
      case (staged f' df')
      show ?thesis
      proof (cases rule: stage_remotely_cases [of w' cl "staged_fs w' fs f' df'"
          "[Log Info (Msg 75 [Strs (keys (req_files rq))]), Log Info (Msg 104 [Strs (columns df')])]"
          "local_path f'" "filename f'" "columns df'"])
        case (negotiate_raised v e r')
        with staged wr show ?thesis by (cases r') auto
      next
        case (write_raised v u' e r')
        with staged wr show ?thesis by (cases r') auto
      qed (use staged wr in auto)
    qed (use wr in simp_all)
    then obtain f' df' where f': "form_get (req_files rq) ''csv_file'' = Some f'"
      and df': "read_csv w' (Some (stream f')) = Returned df'"
      and out': "snd (index w' cl fs rq) =
           Returned (Render_columns_input (columns df') (staging_directory w') (staged_path w' f'))"
      and fs'': "snd (fst (index w' cl fs rq)) = os_remove (staged_fs w' fs f' df') (local_path f')"
      by (rule index_reached_form)
    from f f' have "f' = f" by simp
    moreover from eq have "read_csv w' (Some (stream f)) = read_csv w (Some (stream f))"
      by (simp add: read_csv_def split: list.splits)
    ultimately have "df' = df" using df df' by simp
    with \<open>f' = f\<close> have ff: "f' = f \<and> df' = df" by simp
    with eq out out' fs' fs'' show ?thesis
      by (simp add: staging_directory_def staged_path_def staged_fs_def to_csv_def)
  qed
  from run f fs' same show ?thesis by simp
qed


lemma plain_data_csv: "plain_csv [''id,name'', ''1,a'', ''2,b'']"
  by (simp add: plain_csv_def plain_line_def plain_char_def)

lemma dirname_examples:
  "dirname ''temp/data.csv'' = ''temp''" "dirname ''temp/sub/data.csv'' = ''temp/sub''"
  by (simp_all add: dirname_def)

lemmas index_run_defs = index_def stage_remotely_def upload_to_hdfs_def call_def Let_def
  form_get_def keys_def world_failing_def cl0_def fs0_def rq_upload_def rq_subdir_def
  read_csv_def to_csv_def plain_data_csv save_def missing_directory_def dirname_examples
  os_path_join_def os_path_exists_def os_makedirs_def write_local_def
  os_remove_def w_ok_def w_target_def w_upload_fails_def w_fail_1_2_def

subsection \<open>Runs on the concrete inputs\<close>

lemma valid_rq_uneven: "valid_submission rq_uneven"
  by (simp add: valid_submission_def rq_uneven_def form_get_def form_getlist_def)

lemma run_uneven:
  "map fst (calls (fst (columns_input w_ok cfg0 cl0 rq_uneven)))
     = db_plan cfg0 rq_uneven @ [cleanup cl0 rq_uneven]
   \<and> snd (columns_input w_ok cfg0 cl0 rq_uneven)
     = Returned (Redirect_success (Some ''t1'') (Some ''t1''))"
  by (simp add: columns_input_def connect_and_create_def create_external_table_def
      create_table_from_external_def drop_external_table_def call_def Let_def
      form_get_def form_getlist_def world_failing_def w_ok_def cfg0_def cl0_def rq_uneven_def
      db_plan_def cleanup_def q_create_def q_ctas_def q_drop_def)

lemma run_delete_fails:
  "snd (columns_input w_delete_fails cfg0 cl0 rq_mapping) = Raised (LibError ''boom'')
   \<and> last (fst (columns_input w_delete_fails cfg0 cl0 rq_mapping))
     = Called (HdfsDeleteFile cl0 (Some ''/projects/vlgmic_u1'') True) (Raised (LibError ''boom''))"
  by (simp add: run_defs)

lemma index_run_upload_and_delete_fail:
  "fst (fst (index w_fail_1_2 cl0 fs0 rq_upload)) =
     [Log Info (Msg 75 [Strs [''csv_file'']]),
      Log Info (Msg 104 [Strs [''id'', ''name'']]),
      Called (HdfsMkdirs cl0 ''/projects/vlgmic_u1'') (Returned None),
      Called (HdfsUploadFile cl0 ''temp/data.csv'' ''/projects/vlgmic_u1/data.csv'')
        (Raised (LibError ''boom'')),
      Flash (Msg 123 [Exn (LibError ''boom'')]) ''danger'',
      Log Error (Msg 124 [Exn (LibError ''boom'')]),
      Called (HdfsDeleteFile cl0 (Some ''/projects/vlgmic_u1'') True) (Raised (LibError ''boom''))]
   \<and> snd (index w_fail_1_2 cl0 fs0 rq_upload) = Raised (LibError ''boom'')"
  by (simp add: index_run_defs)

lemma index_run_upload_fails:
  "fst (fst (index w_upload_fails cl0 fs0 rq_upload)) =
     [Log Info (Msg 75 [Strs [''csv_file'']]),
      Log Info (Msg 104 [Strs [''id'', ''name'']]),
      Called (HdfsMkdirs cl0 ''/projects/vlgmic_u1'') (Returned None),
      Called (HdfsUploadFile cl0 ''temp/data.csv'' ''/projects/vlgmic_u1/data.csv'')
        (Raised (LibError ''boom'')),
      Flash (Msg 123 [Exn (LibError ''boom'')]) ''danger'',
      Log Error (Msg 124 [Exn (LibError ''boom'')]),
      Called (HdfsDeleteFile cl0 (Some ''/projects/vlgmic_u1'') True) (Returned None),
      Log Info (Msg 127 [Str (Some ''/projects/vlgmic_u1'')])]
   \<and> snd (index w_upload_fails cl0 fs0 rq_upload) = Returned Redirect_index"
  by (simp add: index_run_defs)

lemma index_run_no_target:
  "fst (fst (index w_ok cl0 fs0 rq_upload)) =
     [Log Info (Msg 75 [Strs [''csv_file'']]),
      Log Info (Msg 104 [Strs [''id'', ''name'']]),
      Called (HdfsMkdirs cl0 ''/projects/vlgmic_u1'') (Returned None),
      Called (HdfsUploadFile cl0 ''temp/data.csv'' ''/projects/vlgmic_u1/data.csv'') (Returned None)]
   \<and> snd (index w_ok cl0 fs0 rq_upload) =
       Returned (Render_columns_input [''id'', ''name''] ''/projects/vlgmic_u1''
          ''/projects/vlgmic_u1/data.csv'')"
  by (simp add: index_run_defs)

lemma index_run_written:
  "fst (fst (index w_target cl0 fs0 rq_upload)) =
     [Log Info (Msg 75 [Strs [''csv_file'']]),
      Log Info (Msg 104 [Strs [''id'', ''name'']]),
      Called (HdfsMkdirs cl0 ''/projects/vlgmic_u1'') (Returned (Some ''http://dn1:9864/w'')),
      Called (HdfsUploadFile cl0 ''temp/data.csv'' ''/projects/vlgmic_u1/data.csv'')
        (Returned (Some ''http://dn1:9864/w'')),
      Called (HdfsWriteFile cl0 (Some ''http://dn1:9864/w'') ''temp/data.csv''
                (Some [''1,a'', ''2,b''])) (Returned (Some ''http://dn1:9864/w'')),
      Log Info (Msg 121 [Str (Some ''data.csv''), Str (Some ''/projects/vlgmic_u1/data.csv'')])]
   \<and> snd (index w_target cl0 fs0 rq_upload) =
       Returned (Render_columns_input [''id'', ''name''] ''/projects/vlgmic_u1''
          ''/projects/vlgmic_u1/data.csv'')"
  by (simp add: index_run_defs)

lemma index_run_save_fails:
  "index w_ok cl0 fs0 rq_subdir =
     (([Log Info (Msg 75 [Strs [''csv_file'']])], with_temp_dir fs0),
      Raised (LibError (''[Errno 2] No such file or directory: '' @ q @ ''temp/sub/data.csv'' @ q)))"
  by (simp add: index_run_defs with_temp_dir_def)

lemma startup_run_standby:
  "startup w_primary_down cfg0 =
     ([Called (HdfsNew ''http://nn1:9870'' ''hdfs'') (Raised (LibError ''boom'')),
       Log Error (Msg 55 [Exn (LibError ''boom'')]),
       Called (HdfsNew ''http://nn2:9870'' ''hdfs'') (Returned None),
       Called (HdfsListStatus \<lparr>base_url = ''http://nn2:9870'', username = ''hdfs''\<rparr> ''/'')
         (Returned None)],
      Returned \<lparr>base_url = ''http://nn2:9870'', username = ''hdfs''\<rparr>)"
  by (simp add: startup_def init_webhdfs_client_def probe_def call_def Let_def
      world_failing_def w_primary_down_def w_fail_1_2_def cfg0_def)

lemma startup_run_none:
  "startup w_fail_1_2 cfg0 =
     ([Called (HdfsNew ''http://nn1:9870'' ''hdfs'') (Returned None),
       Called (HdfsListStatus \<lparr>base_url = ''http://nn1:9870'', username = ''hdfs''\<rparr> ''/'')
         (Raised (LibError ''boom'')),
       Log Error (Msg 55 [Exn (LibError ''boom'')]),
       Called (HdfsNew ''http://nn2:9870'' ''hdfs'') (Raised (LibError ''boom'')),
       Log Error (Msg 61 [Exn (LibError ''boom'')]),
       Log Critical (Msg 68 [])],
      Raised NoHdfsEndpoint)"
  by (simp add: startup_def init_webhdfs_client_def probe_def call_def Let_def
      world_failing_def w_primary_down_def w_fail_1_2_def cfg0_def)

text \<open>
  C1 fails as stated: with \<^verbatim>\<open>columns_info = [id, name]\<close> and \<^verbatim>\<open>types_info = [int]\<close>
  nothing is rejected; the run makes every database call, then the delete, and redirects
  to \<^verbatim>\<open>/success\<close>.
\<close>

theorem lengths_not_compared_counterexample:
  "length (form_getlist (req_form rq_uneven) ''columns_info'')
     \<noteq> length (form_getlist (req_form rq_uneven) ''types_info'')
   \<and> map fst (calls (fst (columns_input w_ok cfg0 cl0 rq_uneven)))
     = db_plan cfg0 rq_uneven @ [cleanup cl0 rq_uneven]
   \<and> snd (columns_input w_ok cfg0 cl0 rq_uneven)
     = Returned (Redirect_success (Some ''t1'') (Some ''t1''))"
  using run_uneven by (simp add: rq_uneven_def form_getlist_def)

text \<open>
  The same submission in the amended statement: it is accepted, and its column
  definitions are \<^verbatim>\<open>id int\<close>, the second column name being dropped by \<^verbatim>\<open>zip\<close>.
\<close>

theorem rejection_ignores_lengths_witness:
  "valid_submission rq_uneven
   \<and> columns_input w_ok cfg0 cl0 rq_uneven
       \<noteq> ([Flash (Msg 152 []) ''danger''], Returned Redirect_index)
   \<and> calls (fst (columns_input w_ok cfg0 cl0 rq_uneven)) \<noteq> []
   \<and> q_create cfg0 rq_uneven =
       create_external_query ''ext'' ''t1'' ''/projects/vlgmic_u1/data.csv'' ''id int'' '',''"
proof -
  have e: "create_external_query (SCHEMA_EXTERNAL cfg0) (fmt (form_get (req_form rq_uneven) ''table_name''))
         (fmt (form_get (req_form rq_uneven) ''hdfs_file_path''))
         (columns_definition_of
            (take (min (length (form_getlist (req_form rq_uneven) ''columns_info''))
                       (length (form_getlist (req_form rq_uneven) ''types_info'')))
               (form_getlist (req_form rq_uneven) ''columns_info''))
            (take (min (length (form_getlist (req_form rq_uneven) ''columns_info''))
                       (length (form_getlist (req_form rq_uneven) ''types_info'')))
               (form_getlist (req_form rq_uneven) ''types_info'')))
         (fmt (form_get (req_form rq_uneven) ''delimiter''))
     = create_external_query ''ext'' ''t1'' ''/projects/vlgmic_u1/data.csv'' ''id int'' '',''"
    by (simp add: rq_uneven_def cfg0_def form_get_def form_getlist_def columns_definition_of_def)
  from valid_rq_uneven e
    rejection_ignores_lengths [of w_ok cfg0 cl0 rq_uneven]
  show ?thesis by simp
qed

text \<open>
  C2 fails as stated: when the three sub-steps succeed and the delete raises, the
  exception is the outcome of \<^verbatim>\<open>columns_input\<close>; there is no redirect, and the delete is
  the last event of the run.
\<close>

theorem delete_failure_aborts_counterexample:
  "snd (columns_input w_delete_fails cfg0 cl0 rq_mapping) = Raised (LibError ''boom'')
   \<and> last (fst (columns_input w_delete_fails cfg0 cl0 rq_mapping))
     = Called (HdfsDeleteFile cl0 (Some ''/projects/vlgmic_u1'') True) (Raised (LibError ''boom''))"
  by (rule run_delete_fails)

text \<open>
  The amended statement on a run of \<^verbatim>\<open>columns_input\<close> whose delete returns and on a
  run of \<^verbatim>\<open>index\<close> whose delete raises.
\<close>

theorem delete_is_unguarded_witness:
  "deletes (fst (columns_input w_ok cfg0 cl0 rq_mapping))
     = [(HdfsDeleteFile cl0 (Some ''/projects/vlgmic_u1'') True, Returned None)]
   \<and> unguarded_delete (fst (columns_input w_ok cfg0 cl0 rq_mapping))
       (snd (columns_input w_ok cfg0 cl0 rq_mapping))
       (HdfsDeleteFile cl0 (Some ''/projects/vlgmic_u1'') True)
       (Msg 187 [Str (Some ''/projects/vlgmic_u1'')])
       (Redirect_success (Some ''t1'') (Some ''t1''))
   \<and> deletes (fst (fst (index w_fail_1_2 cl0 fs0 rq_upload)))
     = [(HdfsDeleteFile cl0 (Some ''/projects/vlgmic_u1'') True, Raised (LibError ''boom''))]
   \<and> unguarded_delete (fst (fst (index w_fail_1_2 cl0 fs0 rq_upload)))
       (snd (index w_fail_1_2 cl0 fs0 rq_upload))
       (HdfsDeleteFile cl0 (Some ''/projects/vlgmic_u1'') True)
       (Msg 127 [Str (Some ''/projects/vlgmic_u1'')]) Redirect_index"
proof -
  have a: "cleanup cl0 rq_mapping = HdfsDeleteFile cl0 (Some ''/projects/vlgmic_u1'') True"
    "form_get (req_form rq_mapping) ''hdfs_directory'' = Some ''/projects/vlgmic_u1''"
    "form_get (req_form rq_mapping) ''table_name'' = Some ''t1''"
    by (simp_all add: cleanup_def rq_mapping_def mapping_form_def form_get_def)
  have b: "staging_directory w_fail_1_2 = ''/projects/vlgmic_u1''"
    by (simp add: staging_directory_def world_failing_def w_fail_1_2_def w_upload_fails_def)
  have c: "deletes (fst (columns_input w_ok cfg0 cl0 rq_mapping))
     = [(HdfsDeleteFile cl0 (Some ''/projects/vlgmic_u1'') True, Returned None)]"
    by (simp add: run_all_ok deletes_def)
  have d: "deletes (fst (fst (index w_fail_1_2 cl0 fs0 rq_upload)))
     = [(HdfsDeleteFile cl0 (Some ''/projects/vlgmic_u1'') True, Raised (LibError ''boom''))]"
    by (simp add: index_run_upload_and_delete_fail deletes_def)
  from a b c d
    delete_is_unguarded [of w_ok cfg0 cl0 rq_mapping fs0 rq_no_file]
    delete_is_unguarded [of w_fail_1_2 cfg0 cl0 rq_mapping fs0 rq_upload]
  show ?thesis by simp
qed

text \<open>
  C5 fails as stated: when the negotiation raises and the delete raises too, the error is
  flashed and logged before the delete is called, and the run ends with the exception of
  the delete instead of the redirect to the upload form.
\<close>

theorem upload_failure_no_redirect_counterexample:
  "fst (fst (index w_fail_1_2 cl0 fs0 rq_upload)) =
     [Log Info (Msg 75 [Strs [''csv_file'']]),
      Log Info (Msg 104 [Strs [''id'', ''name'']]),
      Called (HdfsMkdirs cl0 ''/projects/vlgmic_u1'') (Returned None),
      Called (HdfsUploadFile cl0 ''temp/data.csv'' ''/projects/vlgmic_u1/data.csv'')
        (Raised (LibError ''boom'')),
      Flash (Msg 123 [Exn (LibError ''boom'')]) ''danger'',
      Log Error (Msg 124 [Exn (LibError ''boom'')]),
      Called (HdfsDeleteFile cl0 (Some ''/projects/vlgmic_u1'') True) (Raised (LibError ''boom''))]
   \<and> snd (index w_fail_1_2 cl0 fs0 rq_upload) = Raised (LibError ''boom'')"
  by (simp add: index_run_upload_and_delete_fail)

text \<open>
  The amended statement on a run whose negotiation raises and whose delete returns: the
  local copy \<^verbatim>\<open>temp/data.csv\<close> is still there. And on an upload named
  \<^verbatim>\<open>sub/data.csv\<close>: the directory \<^verbatim>\<open>temp/sub\<close> does not exist, saving raises, and that
  exception is the outcome of the run.
\<close>

theorem upload_failure_cleanup_witness:
  "failed_upload (fst (fst (index w_upload_fails cl0 fs0 rq_upload)))
     = [(HdfsUploadFile cl0 ''temp/data.csv'' ''/projects/vlgmic_u1/data.csv'', Raised (LibError ''boom''))]
   \<and> snd (index w_upload_fails cl0 fs0 rq_upload) = Returned Redirect_index
   \<and> lasts 5 (fst (fst (index w_upload_fails cl0 fs0 rq_upload))) =
       [Called (HdfsUploadFile cl0 ''temp/data.csv'' ''/projects/vlgmic_u1/data.csv'')
          (Raised (LibError ''boom'')),
        Flash (Msg 123 [Exn (LibError ''boom'')]) ''danger'',
        Log Error (Msg 124 [Exn (LibError ''boom'')]),
        Called (HdfsDeleteFile cl0 (Some ''/projects/vlgmic_u1'') True) (Returned None),
        Log Info (Msg 127 [Str (Some ''/projects/vlgmic_u1'')])]
   \<and> files (snd (fst (index w_upload_fails cl0 fs0 rq_upload))) ''temp/data.csv'' \<noteq> None
   \<and> fs_save_error w_ok (with_temp_dir fs0) ''temp/sub/data.csv''
       = Some (LibError (''[Errno 2] No such file or directory: '' @ q @ ''temp/sub/data.csv'' @ q))
   \<and> index w_ok cl0 fs0 rq_subdir =
       (([Log Info (Msg 75 [Strs [''csv_file'']])], with_temp_dir fs0),
        Raised (LibError (''[Errno 2] No such file or directory: '' @ q @ ''temp/sub/data.csv'' @ q)))"
proof -
  let ?f = "\<lparr>filename = ''data.csv'', stream = [''id,name'', ''1,a'', ''2,b'']\<rparr>"
  let ?g = "\<lparr>filename = ''sub/data.csv'', stream = [''id,name'', ''1,a'', ''2,b'']\<rparr>"
  have f: "failed_upload (fst (fst (index w_upload_fails cl0 fs0 rq_upload)))
     = [(HdfsUploadFile cl0 ''temp/data.csv'' ''/projects/vlgmic_u1/data.csv'', Raised (LibError ''boom''))]"
    by (simp add: index_run_upload_fails failed_upload_def)
  have r: "form_get (req_files rq_upload) ''csv_file'' = Some ?f"
    "local_path ?f = ''temp/data.csv''"
    by (simp_all add: rq_upload_def form_get_def local_path_def os_path_join_def)
  have g: "req_method rq_subdir = POST" "form_get (req_files rq_subdir) ''csv_file'' = Some ?g"
    "filename ?g \<noteq> []" "local_path ?g = ''temp/sub/data.csv''"
    "keys (req_files rq_subdir) = [''csv_file'']"
    by (simp_all add: rq_subdir_def form_get_def local_path_def os_path_join_def keys_def)
  have e: "fs_save_error w_ok (with_temp_dir fs0) ''temp/sub/data.csv''
       = Some (LibError (''[Errno 2] No such file or directory: '' @ q @ ''temp/sub/data.csv'' @ q))"
    by (simp add: w_ok_def world_failing_def missing_directory_def dirname_examples
        with_temp_dir_def fs0_def os_path_exists_def os_makedirs_def)
  from upload_failure_cleanup [of w_upload_fails cl0 fs0 rq_upload] f
  have "\<forall>f. form_get (req_files rq_upload) ''csv_file'' = Some f \<longrightarrow>
      files (snd (fst (index w_upload_fails cl0 fs0 rq_upload))) (local_path f) \<noteq> None"
    by simp
  from this [rule_format, of ?f] r
  have k: "files (snd (fst (index w_upload_fails cl0 fs0 rq_upload))) ''temp/data.csv'' \<noteq> None"
    by simp
  from upload_failure_cleanup [of w_ok cl0 fs0 rq_subdir]
  have "\<forall>f. req_method rq_subdir = POST \<and> form_get (req_files rq_subdir) ''csv_file'' = Some f
          \<and> filename f \<noteq> [] \<longrightarrow>
          (case fs_save_error w_ok (with_temp_dir fs0) (local_path f) of
             Some e \<Rightarrow>
               index w_ok cl0 fs0 rq_subdir =
                 (([Log Info (Msg 75 [Strs (keys (req_files rq_subdir))])], with_temp_dir fs0),
                  Raised e)
           | None \<Rightarrow>
               (files (snd (fst (index w_ok cl0 fs0 rq_subdir))) (local_path f) = None \<longrightarrow>
                  failed_upload (fst (fst (index w_ok cl0 fs0 rq_subdir))) = []
                  \<and> reached_form (snd (index w_ok cl0 fs0 rq_subdir))))"
    by blast
  from this [rule_format, of ?g] g e
  have s: "index w_ok cl0 fs0 rq_subdir =
       (([Log Info (Msg 75 [Strs [''csv_file'']])], with_temp_dir fs0),
        Raised (LibError (''[Errno 2] No such file or directory: '' @ q @ ''temp/sub/data.csv'' @ q)))"
    by simp
  from f k e s index_run_upload_fails show ?thesis by (simp add: lasts_def)
qed


text \<open>
  Start-up with the primary endpoint down, and with both endpoints down.
\<close>

theorem startup_selects_endpoint_once_witness:
  "snd (startup w_primary_down cfg0)
     = Returned \<lparr>base_url = ''http://nn2:9870'', username = ''hdfs''\<rparr>
   \<and> history (fst (startup w_primary_down cfg0))
     = [(HdfsNew ''http://nn1:9870'' ''hdfs'', False), (HdfsNew ''http://nn2:9870'' ''hdfs'', True),
        (HdfsListStatus \<lparr>base_url = ''http://nn2:9870'', username = ''hdfs''\<rparr> ''/'', True)]
   \<and> snd (startup w_fail_1_2 cfg0) = Raised NoHdfsEndpoint
   \<and> last (fst (startup w_fail_1_2 cfg0)) = Log Critical (Msg 68 [])
   \<and> map (\<lambda>cr. client_of (fst cr))
       (calls (fst (fst (index w_ok cl0 fs0 rq_upload)))) = [Some cl0, Some cl0]"
proof -
  have h: "history (fst (startup w_primary_down cfg0))
     = [(HdfsNew ''http://nn1:9870'' ''hdfs'', False), (HdfsNew ''http://nn2:9870'' ''hdfs'', True),
        (HdfsListStatus \<lparr>base_url = ''http://nn2:9870'', username = ''hdfs''\<rparr> ''/'', True)]"
    by (simp add: startup_run_standby history_def)
  from h startup_run_standby startup_run_none index_run_no_target
    startup_selects_endpoint_once [where w = w_primary_down and cfg = cfg0 and cl = cl0 and fs = fs0
      and rq = rq_upload and rq' = rq_mapping]
    startup_selects_endpoint_once [where w = w_fail_1_2 and cfg = cfg0 and cl = cl0 and fs = fs0
      and rq = rq_upload and rq' = rq_mapping]
    startup_selects_endpoint_once [where w = w_ok and cfg = cfg0 and cl = cl0 and fs = fs0
      and rq = rq_upload and rq' = rq_mapping]
  show ?thesis by simp
qed

text \<open>
  A negotiation returning \<^verbatim>\<open>None\<close>, compared with a run in which the file is
  transferred.
\<close>

theorem falsy_target_skips_transfer_witness:
  "(HdfsUploadFile cl0 ''temp/data.csv'' ''/projects/vlgmic_u1/data.csv'', Returned None)
     \<in> set (calls (fst (fst (index w_ok cl0 fs0 rq_upload))))
   \<and> \<not> truthy None
   \<and> filter (\<lambda>cr. is_write (fst cr))
        (calls (fst (fst (index w_ok cl0 fs0 rq_upload)))) = []
   \<and> reached_form (snd (index w_ok cl0 fs0 rq_upload))
   \<and> snd (index w_target cl0 fs0 rq_upload)
     = snd (index w_ok cl0 fs0 rq_upload)
   \<and> snd (fst (index w_target cl0 fs0 rq_upload))
     = snd (fst (index w_ok cl0 fs0 rq_upload))"
proof -
  have a: "(HdfsUploadFile cl0 ''temp/data.csv'' ''/projects/vlgmic_u1/data.csv'', Returned None)
     \<in> set (calls (fst (fst (index w_ok cl0 fs0 rq_upload))))"
    by (simp add: index_run_no_target)
  have b: "\<not> truthy None" by simp
  have c: "pd_read_csv w_target = pd_read_csv w_ok"
    "pd_to_csv w_target = pd_to_csv w_ok"
    "uuid4 w_target = uuid4 w_ok"
    by (simp_all add: world_failing_def w_ok_def w_target_def)
  have d: "filter (\<lambda>cr. is_write (fst cr) \<and> returned (snd cr))
      (calls (fst (fst (index w_target cl0 fs0 rq_upload)))) \<noteq> []"
    by (simp add: index_run_written)
  from falsy_target_skips_transfer [OF a b]
  have e: "filter (\<lambda>cr. is_write (fst cr))
        (calls (fst (fst (index w_ok cl0 fs0 rq_upload)))) = []"
    and f: "reached_form (snd (index w_ok cl0 fs0 rq_upload))"
    and g: "\<forall>w'. pd_read_csv w' = pd_read_csv w_ok
           \<and> pd_to_csv w' = pd_to_csv w_ok
           \<and> uuid4 w' = uuid4 w_ok
           \<and> filter (\<lambda>cr. is_write (fst cr) \<and> returned (snd cr))
                (calls (fst (fst (index w' cl0 fs0 rq_upload)))) \<noteq> [] \<longrightarrow>
           snd (index w' cl0 fs0 rq_upload) = snd (index w_ok cl0 fs0 rq_upload)
           \<and> snd (fst (index w' cl0 fs0 rq_upload))
             = snd (fst (index w_ok cl0 fs0 rq_upload))"
    by blast+
  from g [rule_format, of w_target] c d
  have "snd (index w_target cl0 fs0 rq_upload)
     = snd (index w_ok cl0 fs0 rq_upload)
   \<and> snd (fst (index w_target cl0 fs0 rq_upload))
     = snd (fst (index w_ok cl0 fs0 rq_upload))"
    by blast
  with a b e f show ?thesis by blast
qed

text \<open>
  The mapping of the specification's scenario without its \<^verbatim>\<open>hdfs_directory\<close> field.
\<close>

theorem missing_directory_reaches_delete_witness:
  "valid_submission rq_no_directory
   \<and> form_get (req_form rq_no_directory) ''hdfs_directory'' = None
   \<and> sub_steps_succeeded cfg0 rq_no_directory
       (fst (columns_input w_ok cfg0 cl0 rq_no_directory))
   \<and> map fst (deletes (fst (columns_input w_ok cfg0 cl0 rq_no_directory)))
       = [HdfsDeleteFile cl0 None True]"
proof -
  have v: "valid_submission rq_no_directory"
    using missing_directory_reaches_delete [of rq_mapping w_ok cfg0 cl0]
      valid_rq_mapping
    by (simp add: rq_no_directory_def)
  have n: "form_get (req_form rq_no_directory) ''hdfs_directory'' = None"
    by (simp add: rq_no_directory_def without_directory_def rq_mapping_def mapping_form_def
        form_get_def)
  have s: "sub_steps_succeeded cfg0 rq_no_directory
       (fst (columns_input w_ok cfg0 cl0 rq_no_directory))"
    by (simp add: columns_input_def connect_and_create_def create_external_table_def
      create_table_from_external_def drop_external_table_def call_def Let_def
      form_get_def form_getlist_def world_failing_def w_ok_def cfg0_def cl0_def rq_mapping_def
      mapping_form_def rq_no_directory_def without_directory_def
      sub_steps_succeeded_def db_plan_def q_create_def q_ctas_def q_drop_def)
  from v n s missing_directory_reaches_delete [of rq_no_directory w_ok cfg0 cl0]
  show ?thesis by simp
qed

end
